theory Spec2Isabelle
  imports Complex_Main
begin

section \<open>Python values, dictionaries and exceptions\<close>

text \<open>
  The program passes opportunities, transactions and analyses around as Python
  dictionaries with string keys (\<open>Dict[str, Any]\<close>). A value is one of the shapes the
  program builds or reads: \<open>None\<close>, a string, a number or a tuple. A finite \<open>float\<close>
  and an \<open>int\<close> are both read as real numbers (\<open>PNum\<close>): the embedding computes with
  exact reals, so rounding is outside it. The three floats that are no real number are
  values of their own: \<open>nan\<close> (\<open>PNan\<close>), \<open>inf\<close> (\<open>PInf True\<close>) and \<open>-inf\<close>
  (\<open>PInf False\<close>).

  A dictionary is an association list in insertion order, read with \<open>map_of\<close>.
\<close>

datatype pyval = PNone | PStr string | PNum real | PNan | PInf bool | PTuple "pyval list"

type_synonym pydict = "(string \<times> pyval) list"

text \<open>
  The exceptions the modelled code can raise itself, and \<open>Raised\<close> for any other
  instance of \<open>Exception\<close> thrown by an external collaborator (a venue, a bridge, the
  language-model service), carrying its message.
\<close>

datatype py_exception =
    KeyError pyval
  | TypeError
  | IndexError
  | AttributeError
  | NameError
  | ValueError
  | Raised string

text \<open>\<open>d[k]\<close>: a missing key raises \<open>KeyError\<close>.\<close>

definition getitem :: "pydict \<Rightarrow> string \<Rightarrow> py_exception + pyval" where
  "getitem d k = (case map_of d k of None \<Rightarrow> Inl (KeyError (PStr k)) | Some v \<Rightarrow> Inr v)"

text \<open>\<open>v[0]\<close> on a value: the first element of a tuple or string.\<close>

fun subscript0 :: "pyval \<Rightarrow> py_exception + pyval" where
  "subscript0 (PTuple []) = Inl IndexError"
| "subscript0 (PTuple (x # xs)) = Inr x"
| "subscript0 (PStr []) = Inl IndexError"
| "subscript0 (PStr (c # cs)) = Inr (PStr [c])"
| "subscript0 PNone = Inl TypeError"
| "subscript0 (PNum r) = Inl TypeError"
| "subscript0 PNan = Inl TypeError"
| "subscript0 (PInf s) = Inl TypeError"

text \<open>
  \<open>v * f\<close> for a float literal \<open>f\<close>: only a number can be multiplied by a float;
  \<open>nan\<close> stays \<open>nan\<close>, and an infinity keeps or changes its sign with the sign of \<open>f\<close>.
\<close>

fun times_float :: "pyval \<Rightarrow> real \<Rightarrow> py_exception + pyval" where
  "times_float (PNum a) f = Inr (PNum (a * f))"
| "times_float PNan f = Inr PNan"
| "times_float (PInf s) f = Inr (if f = 0 then PNan else PInf (s = (0 < f)))"
| "times_float PNone f = Inl TypeError"
| "times_float (PStr s) f = Inl TypeError"
| "times_float (PTuple xs) f = Inl TypeError"

section \<open>blockchain\_interface.py: the three-leg execution\<close>

subsection \<open>The placeholder legs\<close>

text \<open>The keys of \<open>self.connections\<close>.\<close>

definition connections :: "string list" where
  "connections = [''ethereum'', ''bsc'', ''polygon'', ''avalanche'']"

text \<open>
  \<open>execute_dex_trade\<close>: \<open>self.connections[chain]\<close> raises \<open>KeyError\<close> for an unknown
  chain; the received amount is the amount less 1 percent.
\<close>

definition execute_dex_trade ::
  "pyval \<Rightarrow> pyval \<Rightarrow> string \<Rightarrow> pyval \<Rightarrow> pyval \<Rightarrow> py_exception + pydict" where
  "execute_dex_trade chain dex action amount token_pair =
     (if chain \<notin> PStr ` set connections then Inl (KeyError chain)
      else case times_float amount (99 / 100) of
             Inl e \<Rightarrow> Inl e
           | Inr received \<Rightarrow>
               Inr [(''chain'', chain), (''dex'', dex), (''action'', PStr action),
                    (''amount'', amount), (''received_amount'', received),
                    (''tx_hash'', PStr ''0x...'')])"

text \<open>\<open>bridge_assets\<close>: the received amount is the amount less 0.5 percent.\<close>

definition bridge_assets ::
  "pyval \<Rightarrow> pyval \<Rightarrow> pyval \<Rightarrow> pyval \<Rightarrow> py_exception + pydict" where
  "bridge_assets from_chain to_chain token amount =
     (case times_float amount (995 / 1000) of
        Inl e \<Rightarrow> Inl e
      | Inr received \<Rightarrow>
          Inr [(''from_chain'', from_chain), (''to_chain'', to_chain), (''token'', token),
               (''amount'', amount), (''received_amount'', received),
               (''tx_hash'', PStr ''0x...'')])"

subsection \<open>The coordinator\<close>

text \<open>
  \<open>execute_arbitrage\<close> reaches its legs through \<open>self\<close>, so the legs are a parameter of
  the model: \<open>dex_leg\<close> stands for \<open>self.execute_dex_trade\<close> and \<open>bridge_leg\<close> for
  \<open>self.bridge_assets\<close>, each returning a transaction dictionary or raising.
\<close>

record legs =
  dex_leg :: "pyval \<Rightarrow> pyval \<Rightarrow> string \<Rightarrow> pyval \<Rightarrow> pyval \<Rightarrow> py_exception + pydict"
  bridge_leg :: "pyval \<Rightarrow> pyval \<Rightarrow> pyval \<Rightarrow> pyval \<Rightarrow> py_exception + pydict"

text \<open>The legs of the class as it is written.\<close>

definition BlockchainInterface :: legs where
  "BlockchainInterface = \<lparr>dex_leg = execute_dex_trade, bridge_leg = bridge_assets\<rparr>"

text \<open>A leg invocation, with the arguments it was started with.\<close>

datatype leg_call =
    DexTrade pyval pyval string pyval pyval
  | BridgeAssets pyval pyval pyval pyval

fun run_leg :: "legs \<Rightarrow> leg_call \<Rightarrow> py_exception + pydict" where
  "run_leg self (DexTrade chain dex action amount token_pair) =
     dex_leg self chain dex action amount token_pair"
| "run_leg self (BridgeAssets from_chain to_chain token amount) =
     bridge_leg self from_chain to_chain token amount"

text \<open>
  The \<open>result\<close> dictionary of \<open>execute_arbitrage\<close> (\<open>success\<close>, \<open>transactions\<close>,
  \<open>errors\<close>), and with it the legs started so far, in order (\<open>calls\<close>), which the
  source does not store but which its control flow determines. An entry of \<open>errors\<close> is
  \<open>str(e)\<close> in the source; the model keeps the exception \<open>e\<close> that \<open>str\<close> is applied to.
\<close>

record arbitrage_run =
  success :: bool
  transactions :: "pydict list"
  errors :: "py_exception list"
  calls :: "leg_call list"

text \<open>
  A statement of the \<open>try\<close> block: it reads and updates the run and either yields a
  value or raises, leaving the run as it was when the exception was thrown.
\<close>

type_synonym 'a stmt = "arbitrage_run \<Rightarrow> (py_exception + 'a) \<times> arbitrage_run"

definition expr :: "py_exception + 'a \<Rightarrow> 'a stmt" where
  "expr v = (\<lambda>s. (v, s))"

definition then_do :: "'a stmt \<Rightarrow> ('a \<Rightarrow> 'b stmt) \<Rightarrow> 'b stmt" where
  "then_do m f = (\<lambda>s. case m s of (Inl e, s') \<Rightarrow> (Inl e, s') | (Inr a, s') \<Rightarrow> f a s')"

definition await_leg :: "legs \<Rightarrow> leg_call \<Rightarrow> pydict stmt" where
  "await_leg self c = (\<lambda>s. (run_leg self c, s\<lparr>calls := calls s @ [c]\<rparr>))"

definition append_transaction :: "pydict \<Rightarrow> unit stmt" where
  "append_transaction tx = (\<lambda>s. (Inr (), s\<lparr>transactions := transactions s @ [tx]\<rparr>))"

definition set_success :: "unit stmt" where
  "set_success = (\<lambda>s. (Inr (), s\<lparr>success := True\<rparr>))"

text \<open>
  Step 1 of the \<open>try\<close> block. The keyword arguments are evaluated left to right before
  the call.
\<close>

definition buy_step :: "legs \<Rightarrow> pydict \<Rightarrow> pydict stmt" where
  "buy_step self opportunity =
     then_do (expr (getitem opportunity ''source_chain'')) (\<lambda>chain.
     then_do (expr (getitem opportunity ''source_dex'')) (\<lambda>dex.
     then_do (expr (getitem opportunity ''required_capital'')) (\<lambda>amount.
     then_do (expr (getitem opportunity ''token_pair'')) (\<lambda>token_pair.
     then_do (await_leg self (DexTrade chain dex ''buy'' amount token_pair)) (\<lambda>buy_tx.
     then_do (append_transaction buy_tx) (\<lambda>_.
     expr (Inr buy_tx)))))))"

text \<open>
  Step 2: the bridge, only when the chains differ. It yields \<open>Some bridge_tx\<close> when the
  local \<open>bridge_tx\<close> has been bound and \<open>None\<close> otherwise.
\<close>

definition bridge_step :: "legs \<Rightarrow> pydict \<Rightarrow> pydict \<Rightarrow> pydict option stmt" where
  "bridge_step self opportunity buy_tx =
     then_do (expr (getitem opportunity ''source_chain'')) (\<lambda>source_chain.
     then_do (expr (getitem opportunity ''target_chain'')) (\<lambda>target_chain.
     if source_chain \<noteq> target_chain then
       then_do (expr (getitem opportunity ''source_chain'')) (\<lambda>from_chain.
       then_do (expr (getitem opportunity ''target_chain'')) (\<lambda>to_chain.
       then_do (expr (getitem opportunity ''token_pair'')) (\<lambda>token_pair.
       then_do (expr (subscript0 token_pair)) (\<lambda>token.
       then_do (expr (getitem buy_tx ''received_amount'')) (\<lambda>amount.
       then_do (await_leg self (BridgeAssets from_chain to_chain token amount)) (\<lambda>bridge_tx.
       then_do (append_transaction bridge_tx) (\<lambda>_.
       expr (Inr (Some bridge_tx)))))))))
     else expr (Inr None)))"

text \<open>
  Step 3: the sale of what the bridge delivered, or of what the purchase delivered when
  no bridge ran (\<open>'bridge_tx' in locals()\<close>).
\<close>

definition sell_step :: "legs \<Rightarrow> pydict \<Rightarrow> pydict \<Rightarrow> pydict option \<Rightarrow> unit stmt" where
  "sell_step self opportunity buy_tx bridge_tx =
     then_do (expr (getitem opportunity ''target_chain'')) (\<lambda>chain.
     then_do (expr (getitem opportunity ''target_dex'')) (\<lambda>dex.
     then_do (expr (case bridge_tx of
                      Some b \<Rightarrow> getitem b ''received_amount''
                    | None \<Rightarrow> getitem buy_tx ''received_amount'')) (\<lambda>amount.
     then_do (expr (getitem opportunity ''token_pair'')) (\<lambda>token_pair.
     then_do (await_leg self (DexTrade chain dex ''sell'' amount token_pair)) (\<lambda>sell_tx.
     append_transaction sell_tx)))))"

definition try_block :: "legs \<Rightarrow> pydict \<Rightarrow> unit stmt" where
  "try_block self opportunity =
     then_do (buy_step self opportunity) (\<lambda>buy_tx.
     then_do (bridge_step self opportunity buy_tx) (\<lambda>bridge_tx.
     then_do (sell_step self opportunity buy_tx bridge_tx) (\<lambda>_.
     set_success)))"

definition initial_run :: arbitrage_run where
  "initial_run = \<lparr>success = False, transactions = [], errors = [], calls = []\<rparr>"

text \<open>
  \<open>execute_arbitrage\<close>: the \<open>try\<close> block, and \<open>except Exception as e\<close> appending the
  error; the result is returned on both paths.
\<close>

definition execute_arbitrage_with :: "legs \<Rightarrow> pydict \<Rightarrow> arbitrage_run" where
  "execute_arbitrage_with self opportunity =
     (case try_block self opportunity initial_run of
        (Inr _, s) \<Rightarrow> s
      | (Inl e, s) \<Rightarrow> s\<lparr>errors := errors s @ [e]\<rparr>)"

definition execute_arbitrage :: "pydict \<Rightarrow> arbitrage_run" where
  "execute_arbitrage opportunity = execute_arbitrage_with BlockchainInterface opportunity"

text \<open>
  The kind of a leg, in the words of an execution path (\<open>buy\<close>, \<open>bridge\<close>, \<open>sell\<close>):
  the \<open>action\<close> a venue trade was started with, and \<open>bridge\<close> for a transfer.
\<close>

fun leg_kind :: "leg_call \<Rightarrow> string" where
  "leg_kind (DexTrade chain dex action amount token_pair) = action"
| "leg_kind (BridgeAssets from_chain to_chain token amount) = ''bridge''"

text \<open>
  Two opportunity dictionaries: the sample opportunity of \<open>_find_raw_opportunities\<close>
  (Ethereum to Polygon, capital 10000), and the same trade aimed at a chain that
  \<open>self.connections\<close> does not hold.
\<close>

definition sample_trade :: pydict where
  "sample_trade =
     [(''source_chain'', PStr ''ethereum''), (''source_dex'', PStr ''uniswap''),
      (''target_chain'', PStr ''polygon''), (''target_dex'', PStr ''quickswap''),
      (''token_pair'', PTuple [PStr ''WETH'', PStr ''USDT'']),
      (''required_capital'', PNum 10000)]"

definition unknown_target_trade :: pydict where
  "unknown_target_trade =
     [(''source_chain'', PStr ''ethereum''), (''source_dex'', PStr ''uniswap''),
      (''target_chain'', PStr ''solana''), (''target_dex'', PStr ''raydium''),
      (''token_pair'', PTuple [PStr ''WETH'', PStr ''USDT'']),
      (''required_capital'', PNum 10000)]"

section \<open>price\_fetcher.py: one price per venue\<close>

text \<open>
  \<open>self.supported_dexes\<close>, in insertion order: the venues of each chain.
\<close>

definition supported_dexes :: "(string \<times> string list) list" where
  "supported_dexes =
     [(''ethereum'', [''uniswap'', ''sushiswap'']),
      (''bsc'', [''pancakeswap'']),
      (''polygon'', [''quickswap'']),
      (''avalanche'', [''traderjoe''])]"

text \<open>
  \<open>get_dex_price\<close> as it is written returns \<open>0.0\<close>: nothing in its \<open>try\<close> body can
  raise. \<open>fetch_all_prices\<close> reaches it through \<open>self\<close>, and a real quote source can
  return a price, return \<open>None\<close> or raise, so the fetch is a parameter of the model.
\<close>

definition get_dex_price :: "string \<Rightarrow> pyval \<Rightarrow> py_exception + pyval" where
  "get_dex_price dex token_pair = Inr (PNum 0)"

text \<open>\<open>prices[k] = v\<close>: an existing key keeps its place, a new key goes last.\<close>

fun setitem :: "pydict \<Rightarrow> string \<Rightarrow> pyval \<Rightarrow> pydict" where
  "setitem [] k v = [(k, v)]"
| "setitem ((k', v') # d) k v = (if k' = k then (k, v) # d else (k', v') # setitem d k v)"

text \<open>The key \<open>f"{chain}_{dex}"\<close>.\<close>

definition market_key :: "string \<Rightarrow> string \<Rightarrow> string" where
  "market_key chain dex = chain @ ''_'' @ dex"

text \<open>
  The first pair of loops builds one task per venue, and \<open>asyncio.gather\<close> with
  \<open>return_exceptions=True\<close> returns, in the order of the tasks, the value each task
  returned or the exception it raised.
\<close>

definition gather_prices ::
  "(string \<Rightarrow> pyval \<Rightarrow> py_exception + pyval) \<Rightarrow> pyval \<Rightarrow> (py_exception + pyval) list" where
  "gather_prices fetch token_pair =
     concat (map (\<lambda>(chain, dexes). map (\<lambda>dex. fetch dex token_pair) dexes) supported_dexes)"

text \<open>
  The second pair of loops walks the venues again with the running index \<open>idx\<close>;
  \<open>results[idx]\<close> raises \<open>IndexError\<close> past the end of the list.
\<close>

fun collect_dexes ::
  "(py_exception + pyval) list \<Rightarrow> string \<Rightarrow> string list \<Rightarrow> pydict \<times> nat \<Rightarrow>
   py_exception + pydict \<times> nat" where
  "collect_dexes results chain [] (prices, idx) = Inr (prices, idx)"
| "collect_dexes results chain (dex # dexes) (prices, idx) =
     (if idx < length results then
        (case results ! idx of
           Inl e \<Rightarrow> collect_dexes results chain dexes (prices, idx + 1)
         | Inr price \<Rightarrow>
             collect_dexes results chain dexes
               (setitem prices (market_key chain dex) price, idx + 1))
      else Inl IndexError)"

fun collect_chains ::
  "(py_exception + pyval) list \<Rightarrow> (string \<times> string list) list \<Rightarrow> pydict \<times> nat \<Rightarrow>
   py_exception + pydict \<times> nat" where
  "collect_chains results [] acc = Inr acc"
| "collect_chains results ((chain, dexes) # rest) acc =
     (case collect_dexes results chain dexes acc of
        Inl e \<Rightarrow> Inl e
      | Inr acc' \<Rightarrow> collect_chains results rest acc')"

definition fetch_all_prices_with ::
  "(string \<Rightarrow> pyval \<Rightarrow> py_exception + pyval) \<Rightarrow> pyval \<Rightarrow> py_exception + pydict" where
  "fetch_all_prices_with fetch token_pair =
     (case collect_chains (gather_prices fetch token_pair) supported_dexes ([], 0) of
        Inl e \<Rightarrow> Inl e
      | Inr (prices, idx) \<Rightarrow> Inr prices)"

definition fetch_all_prices :: "pyval \<Rightarrow> py_exception + pydict" where
  "fetch_all_prices token_pair = fetch_all_prices_with get_dex_price token_pair"

text \<open>The (chain, venue) pairs of the table.\<close>

definition venues :: "(string \<times> string) list" where
  "venues = concat (map (\<lambda>(chain, dexes). map (\<lambda>dex. (chain, dex)) dexes) supported_dexes)"

section \<open>ai\_strategy.py: the advisory analysis\<close>

subsection \<open>The language-model service\<close>

text \<open>
  A prompt is a fixed text around interpolated values, so the model keeps the values:
  the six fields of the analysis prompt, or the text whose sentiment is asked for.
\<close>

datatype prompt =
    AnalysisPrompt pyval pyval pyval pyval pyval pyval
  | SentimentPrompt string

text \<open>
  A \<open>float\<close>: a finite one with the real number it stands for, \<open>nan\<close>, or an infinity
  with its sign (\<open>Infinite True\<close> is \<open>inf\<close>, \<open>Infinite False\<close> is \<open>-inf\<close>).
\<close>

datatype pyfloat = Finite real | NaN | Infinite bool

text \<open>
  The text of a completion, as \<open>float(text.strip())\<close> reads it: a numeral with the
  float it denotes, which is \<open>nan\<close> for the text \<open>nan\<close> and an infinity for \<open>inf\<close>,
  \<open>-infinity\<close> or \<open>1e999\<close>; or any other text, on which \<open>float\<close> raises \<open>ValueError\<close>.
\<close>

datatype completion_text = Numeral pyfloat | Prose string

text \<open>
  The service and the clock: \<open>openai.ChatCompletion.acreate\<close> (the content of the
  first choice, or an exception such as a timeout), \<open>openai.Completion.create\<close> (the
  text of the first choice, or an exception) and \<open>datetime.now().isoformat()\<close>.
\<close>

record openai_service =
  chat_completion :: "prompt \<Rightarrow> py_exception + string"
  text_completion :: "prompt \<Rightarrow> py_exception + completion_text"
  now_isoformat :: string

subsection \<open>Scoring\<close>

text \<open>
  The arithmetic of floats the scoring uses. A sum with \<open>nan\<close> is \<open>nan\<close>, and so is the
  sum of the two infinities; every comparison with \<open>nan\<close> is false.
\<close>

fun float_add :: "pyfloat \<Rightarrow> pyfloat \<Rightarrow> pyfloat" where
  "float_add (Finite a) (Finite b) = Finite (a + b)"
| "float_add (Finite a) (Infinite t) = Infinite t"
| "float_add (Infinite s) (Finite b) = Infinite s"
| "float_add (Infinite s) (Infinite t) = (if s = t then Infinite s else NaN)"
| "float_add NaN y = NaN"
| "float_add (Finite a) NaN = NaN"
| "float_add (Infinite s) NaN = NaN"

fun float_neg :: "pyfloat \<Rightarrow> pyfloat" where
  "float_neg (Finite a) = Finite (- a)"
| "float_neg (Infinite s) = Infinite (\<not> s)"
| "float_neg NaN = NaN"

definition float_sub :: "pyfloat \<Rightarrow> pyfloat \<Rightarrow> pyfloat" where
  "float_sub x y = float_add x (float_neg y)"

text \<open>\<open>x / f\<close> for a numeric literal \<open>f\<close> other than zero.\<close>

fun float_div :: "pyfloat \<Rightarrow> real \<Rightarrow> pyfloat" where
  "float_div (Finite a) f = Finite (a / f)"
| "float_div (Infinite s) f = Infinite (s = (0 < f))"
| "float_div NaN f = NaN"

fun float_less :: "pyfloat \<Rightarrow> pyfloat \<Rightarrow> bool" where
  "float_less (Finite a) (Finite b) = (a < b)"
| "float_less (Finite a) (Infinite t) = t"
| "float_less (Infinite s) (Finite b) = (\<not> s)"
| "float_less (Infinite s) (Infinite t) = (t \<and> \<not> s)"
| "float_less NaN y = False"
| "float_less (Finite a) NaN = False"
| "float_less (Infinite s) NaN = False"

fun float_le :: "pyfloat \<Rightarrow> pyfloat \<Rightarrow> bool" where
  "float_le (Finite a) (Finite b) = (a \<le> b)"
| "float_le (Finite a) (Infinite t) = t"
| "float_le (Infinite s) (Finite b) = (\<not> s)"
| "float_le (Infinite s) (Infinite t) = (s = t \<or> t)"
| "float_le NaN y = False"
| "float_le (Finite a) NaN = False"
| "float_le (Infinite s) NaN = False"

text \<open>
  The builtins \<open>min(x, y)\<close> and \<open>max(x, y)\<close>: the first argument is kept unless the
  second is smaller (for \<open>min\<close>) or greater (for \<open>max\<close>), so a \<open>nan\<close> in the first
  place is returned.
\<close>

definition min_float :: "pyfloat \<Rightarrow> pyfloat \<Rightarrow> pyfloat" where
  "min_float x y = (if float_less y x then y else x)"

definition max_float :: "pyfloat \<Rightarrow> pyfloat \<Rightarrow> pyfloat" where
  "max_float x y = (if float_less x y then y else x)"

text \<open>A float as a value of a dictionary.\<close>

fun float_value :: "pyfloat \<Rightarrow> pyval" where
  "float_value (Finite a) = PNum a"
| "float_value NaN = PNan"
| "float_value (Infinite s) = PInf s"

text \<open>
  \<open>v / f\<close> and \<open>v < f\<close> for a numeric literal \<open>f\<close> other than zero: only a number can
  stand on the left.
\<close>

fun div_float :: "pyval \<Rightarrow> real \<Rightarrow> py_exception + pyfloat" where
  "div_float (PNum a) f = Inr (float_div (Finite a) f)"
| "div_float PNan f = Inr (float_div NaN f)"
| "div_float (PInf s) f = Inr (float_div (Infinite s) f)"
| "div_float PNone f = Inl TypeError"
| "div_float (PStr s) f = Inl TypeError"
| "div_float (PTuple xs) f = Inl TypeError"

fun less_float :: "pyval \<Rightarrow> real \<Rightarrow> py_exception + bool" where
  "less_float (PNum a) f = Inr (a < f)"
| "less_float PNan f = Inr False"
| "less_float (PInf s) f = Inr (\<not> s)"
| "less_float PNone f = Inl TypeError"
| "less_float (PStr s) f = Inl TypeError"
| "less_float (PTuple xs) f = Inl TypeError"

text \<open>
  \<open>_analyze_text_sentiment\<close>: the bare \<open>except\<close> turns a failed call and an unreadable
  answer into the neutral 0.5; a numeral \<open>s\<close> becomes \<open>(s + 1) / 2\<close> unchecked.
\<close>

definition analyze_text_sentiment :: "openai_service \<Rightarrow> string \<Rightarrow> pyfloat" where
  "analyze_text_sentiment openai txt =
     (case text_completion openai (SentimentPrompt txt) of
        Inl e \<Rightarrow> Finite (1 / 2)
      | Inr (Prose p) \<Rightarrow> Finite (1 / 2)
      | Inr (Numeral sentiment_score) \<Rightarrow> float_div (float_add sentiment_score (Finite 1)) 2)"

text \<open>\<open>_calculate_risk_score\<close>.\<close>

definition calculate_risk_score ::
  "openai_service \<Rightarrow> string \<Rightarrow> pydict \<Rightarrow> py_exception + pyfloat" where
  "calculate_risk_score openai analysis opportunity_data =
     (let base_score = Finite (1 / 2) in
      case getitem opportunity_data ''profit_percentage'' of Inl e \<Rightarrow> Inl e
      | Inr profit \<Rightarrow>
      case div_float profit 10 of Inl e \<Rightarrow> Inl e
      | Inr tenth \<Rightarrow>
      let profit_score = min_float tenth (Finite (3 / 10)) in
      case getitem opportunity_data ''required_capital'' of Inl e \<Rightarrow> Inl e
      | Inr capital \<Rightarrow>
      case div_float capital 100000 of Inl e \<Rightarrow> Inl e
      | Inr share \<Rightarrow>
      let capital_risk = max_float (Finite 0) (float_sub (Finite (2 / 10)) share);
          sentiment_score = analyze_text_sentiment openai analysis
      in Inr (min_float
                (float_add (float_add (float_add base_score profit_score) capital_risk)
                   sentiment_score)
                (Finite 1)))"

subsection \<open>The four advisory calls\<close>

text \<open>\<open>self.confidence_threshold\<close>.\<close>

definition confidence_threshold :: real where
  "confidence_threshold = 85 / 100"

text \<open>
  \<open>_create_analysis_prompt\<close>: the f-string reads the six keys in this order, and a
  missing one raises \<open>KeyError\<close>.
\<close>

definition create_analysis_prompt :: "pydict \<Rightarrow> py_exception + prompt" where
  "create_analysis_prompt opportunity_data =
     (case getitem opportunity_data ''source_chain'' of Inl e \<Rightarrow> Inl e | Inr a \<Rightarrow>
      case getitem opportunity_data ''target_chain'' of Inl e \<Rightarrow> Inl e | Inr b \<Rightarrow>
      case getitem opportunity_data ''token_pair'' of Inl e \<Rightarrow> Inl e | Inr c \<Rightarrow>
      case getitem opportunity_data ''estimated_profit_usd'' of Inl e \<Rightarrow> Inl e | Inr d \<Rightarrow>
      case getitem opportunity_data ''profit_percentage'' of Inl e \<Rightarrow> Inl e | Inr p \<Rightarrow>
      case getitem opportunity_data ''required_capital'' of Inl e \<Rightarrow> Inl e | Inr q \<Rightarrow>
      Inr (AnalysisPrompt a b c d p q))"

text \<open>
  \<open>analyze_opportunity\<close>: the prompt is built outside the \<open>try\<close>; inside it, a failed
  call or a failed scoring ends in \<open>except Exception\<close>, which returns \<open>None\<close>.
\<close>

definition analyze_opportunity :: "openai_service \<Rightarrow> pydict \<Rightarrow> py_exception + pydict option" where
  "analyze_opportunity openai opportunity_data =
     (case create_analysis_prompt opportunity_data of
        Inl e \<Rightarrow> Inl e
      | Inr request \<Rightarrow>
          (case chat_completion openai request of
             Inl e \<Rightarrow> Inr None
           | Inr analysis \<Rightarrow>
               (case calculate_risk_score openai analysis opportunity_data of
                  Inl e \<Rightarrow> Inr None
                | Inr risk_score \<Rightarrow>
                    Inr (Some
                      [(''analysis'', PStr analysis),
                       (''risk_score'', float_value risk_score),
                       (''recommendation'',
                          PStr (if float_le (Finite confidence_threshold) risk_score
                                then ''execute'' else ''skip'')),
                       (''confidence'', float_value risk_score),
                       (''timestamp'', PStr (now_isoformat openai))]))))"

text \<open>
  The other three calls build their prompt before their \<open>try\<close>, and building it
  fails each time as the module is written: \<open>_create_path_optimization_prompt\<close> uses
  \<open>json\<close>, which the module does not import (\<open>NameError\<close>);
  \<open>_create_price_prediction_prompt\<close> calls \<open>.tail()\<close> on the \<open>None\<close> that
  \<open>_get_historical_data\<close> returns (\<open>AttributeError\<close>); and
  \<open>_create_sentiment_analysis_prompt\<close> is not defined (\<open>AttributeError\<close>).
\<close>

definition optimize_execution_path ::
  "openai_service \<Rightarrow> pydict list \<Rightarrow> py_exception + pydict list option" where
  "optimize_execution_path openai paths = Inl NameError"

definition predict_price_movement ::
  "openai_service \<Rightarrow> pyval \<Rightarrow> py_exception + pydict option" where
  "predict_price_movement openai token = Inl AttributeError"

definition analyze_market_sentiment ::
  "openai_service \<Rightarrow> pyval \<Rightarrow> py_exception + pydict option" where
  "analyze_market_sentiment openai token = Inl AttributeError"

text \<open>
  The finder reaches the strategy through \<open>self.ai_strategy\<close>; the record is that
  object, and \<open>AIStrategy\<close> is the class as it is written.
\<close>

record ai_strategy =
  ai_analyze_opportunity :: "pydict \<Rightarrow> py_exception + pydict option"
  ai_optimize_execution_path :: "pydict list \<Rightarrow> py_exception + pydict list option"
  ai_predict_price_movement :: "pyval \<Rightarrow> py_exception + pydict option"
  ai_analyze_market_sentiment :: "pyval \<Rightarrow> py_exception + pydict option"

definition AIStrategy :: "openai_service \<Rightarrow> ai_strategy" where
  "AIStrategy openai =
     \<lparr>ai_analyze_opportunity = analyze_opportunity openai,
      ai_optimize_execution_path = optimize_execution_path openai,
      ai_predict_price_movement = predict_price_movement openai,
      ai_analyze_market_sentiment = analyze_market_sentiment openai\<rparr>"

section \<open>arbitrage\_finder.py: finding and validating opportunities\<close>

record ArbitrageOpportunity =
  source_chain :: string
  source_dex :: string
  target_chain :: string
  target_dex :: string
  token_pair :: "string \<times> string"
  profit_percentage :: real
  estimated_profit_usd :: real
  required_capital :: real
  execution_path :: "pydict list"
  gas_costs :: "(string \<times> real) list"
  timestamp :: real
  ai_analysis :: "pydict option"

text \<open>The attributes \<open>ArbitrageFinder.__init__\<close> sets.\<close>

record finder =
  min_profit_threshold :: real
  max_gas_usage :: nat
  slippage_tolerance :: real

definition ArbitrageFinder :: finder where
  "ArbitrageFinder =
     \<lparr>min_profit_threshold = 5 / 10, max_gas_usage = 500000, slippage_tolerance = 5 / 1000\<rparr>"

text \<open>Truth of an optional dictionary or list: \<open>None\<close> and the empty one are false.\<close>

fun truthy :: "'a list option \<Rightarrow> bool" where
  "truthy None = False"
| "truthy (Some d) = (d \<noteq> [])"

text \<open>\<open>d.get(k, default)\<close>.\<close>

definition dict_get :: "pydict \<Rightarrow> string \<Rightarrow> pyval \<Rightarrow> pyval" where
  "dict_get d k fallback = (case map_of d k of None \<Rightarrow> fallback | Some v \<Rightarrow> v)"

text \<open>The dictionary \<open>find_opportunities\<close> hands to \<open>analyze_opportunity\<close>.\<close>

definition opportunity_data :: "ArbitrageOpportunity \<Rightarrow> pydict" where
  "opportunity_data opp =
     [(''source_chain'', PStr (source_chain opp)),
      (''target_chain'', PStr (target_chain opp)),
      (''token_pair'', PTuple [PStr (fst (token_pair opp)), PStr (snd (token_pair opp))]),
      (''estimated_profit_usd'', PNum (estimated_profit_usd opp)),
      (''profit_percentage'', PNum (profit_percentage opp)),
      (''required_capital'', PNum (required_capital opp))]"

text \<open>
  \<open>ai_analysis and ai_analysis['recommendation'] == 'execute'\<close>: the key is read only
  in a non-empty dictionary.
\<close>

definition recommends_execute :: "pydict option \<Rightarrow> py_exception + bool" where
  "recommends_execute analysis =
     (case analysis of
        None \<Rightarrow> Inr False
      | Some d \<Rightarrow>
          if d = [] then Inr False
          else (case getitem d ''recommendation'' of
                  Inl e \<Rightarrow> Inl e
                | Inr v \<Rightarrow> Inr (v = PStr ''execute'')))"

text \<open>
  The loop of \<open>find_opportunities\<close> over the raw opportunities, with the list
  \<open>opportunities\<close> built so far.
\<close>

fun analyze_each ::
  "ai_strategy \<Rightarrow> ArbitrageOpportunity list \<Rightarrow> ArbitrageOpportunity list \<Rightarrow>
   py_exception + ArbitrageOpportunity list" where
  "analyze_each ai [] found = Inr found"
| "analyze_each ai (opp # rest) found =
     (case ai_analyze_opportunity ai (opportunity_data opp) of
        Inl e \<Rightarrow> Inl e
      | Inr analysis \<Rightarrow>
          (case recommends_execute analysis of
             Inl e \<Rightarrow> Inl e
           | Inr False \<Rightarrow> analyze_each ai rest found
           | Inr True \<Rightarrow>
               (case ai_optimize_execution_path ai (execution_path opp) of
                  Inl e \<Rightarrow> Inl e
                | Inr optimized_path \<Rightarrow>
                    analyze_each ai rest
                      (found @
                       [(if truthy optimized_path
                         then opp\<lparr>execution_path := the optimized_path\<rparr>
                         else opp)\<lparr>ai_analysis := analysis\<rparr>]))))"

text \<open>
  \<open>find_opportunities\<close>, given what \<open>_find_raw_opportunities\<close> returned.
\<close>

definition find_opportunities ::
  "ai_strategy \<Rightarrow> ArbitrageOpportunity list \<Rightarrow> py_exception + ArbitrageOpportunity list" where
  "find_opportunities ai raw_opportunities = analyze_each ai raw_opportunities []"

text \<open>
  \<open>_find_raw_opportunities\<close>: the one sample opportunity, stamped with the current
  time.
\<close>

definition sample_opportunity :: "real \<Rightarrow> ArbitrageOpportunity" where
  "sample_opportunity now =
     \<lparr>source_chain = ''ethereum'', source_dex = ''uniswap'',
      target_chain = ''polygon'', target_dex = ''quickswap'',
      token_pair = (''WETH'', ''USDT''),
      profit_percentage = 12 / 10, estimated_profit_usd = 150, required_capital = 10000,
      execution_path =
        [[(''action'', PStr ''buy''), (''chain'', PStr ''ethereum''), (''dex'', PStr ''uniswap'')],
         [(''action'', PStr ''bridge''), (''from_chain'', PStr ''ethereum''),
          (''to_chain'', PStr ''polygon'')],
         [(''action'', PStr ''sell''), (''chain'', PStr ''polygon''),
          (''dex'', PStr ''quickswap'')]],
      gas_costs = [(''ethereum'', 5 / 100), (''polygon'', 1 / 1000)],
      timestamp = now, ai_analysis = None\<rparr>"

definition find_raw_opportunities :: "real \<Rightarrow> ArbitrageOpportunity list" where
  "find_raw_opportunities now = [sample_opportunity now]"

text \<open>
  \<open>validate_opportunity\<close>. \<open>sum(gas_costs.values())\<close> adds the values of a dictionary,
  whose association list holds each key once.
\<close>

definition validate_opportunity ::
  "finder \<Rightarrow> ai_strategy \<Rightarrow> ArbitrageOpportunity \<Rightarrow> py_exception + bool" where
  "validate_opportunity self ai opportunity =
     (if profit_percentage opportunity < min_profit_threshold self then Inr False
      else if sum_list (map snd (gas_costs opportunity)) > estimated_profit_usd opportunity
      then Inr False
      else if truthy (ai_analysis opportunity) then
        (case getitem (the (ai_analysis opportunity)) ''risk_score'' of Inl e \<Rightarrow> Inl e
         | Inr risk \<Rightarrow>
         case less_float risk (7 / 10) of Inl e \<Rightarrow> Inl e
         | Inr True \<Rightarrow> Inr False
         | Inr False \<Rightarrow>
         case ai_predict_price_movement ai (PStr (fst (token_pair opportunity))) of
           Inl e \<Rightarrow> Inl e
         | Inr price_prediction \<Rightarrow>
         if truthy price_prediction \<and>
            dict_get (the price_prediction) ''direction'' PNone = PStr ''down''
         then Inr False
         else
         case ai_analyze_market_sentiment ai (PStr (fst (token_pair opportunity))) of
           Inl e \<Rightarrow> Inl e
         | Inr sentiment \<Rightarrow>
         if truthy sentiment then
           (case less_float (dict_get (the sentiment) ''score'' (PNum 0)) (5 / 10) of
              Inl e \<Rightarrow> Inl e
            | Inr True \<Rightarrow> Inr False
            | Inr False \<Rightarrow> Inr True)
         else Inr True)
      else Inr True)"

text \<open>
  The \<open>for\<close> loop of \<open>monitor_opportunities\<close>: the opportunities handed to the
  callback, in order, and the exception that ended the loop, if one was raised by the
  validation or by the callback.
\<close>

fun emit_validated ::
  "finder \<Rightarrow> ai_strategy \<Rightarrow> (ArbitrageOpportunity \<Rightarrow> py_exception + unit) \<Rightarrow>
   ArbitrageOpportunity list \<Rightarrow> ArbitrageOpportunity list \<times> py_exception option" where
  "emit_validated self ai callback [] = ([], None)"
| "emit_validated self ai callback (opp # rest) =
     (case validate_opportunity self ai opp of
        Inl e \<Rightarrow> ([], Some e)
      | Inr False \<Rightarrow> emit_validated self ai callback rest
      | Inr True \<Rightarrow>
          (case callback opp of
             Inl e \<Rightarrow> ([opp], Some e)
           | Inr u \<Rightarrow>
               (case emit_validated self ai callback rest of
                  (emitted, raised) \<Rightarrow> (opp # emitted, raised))))"

text \<open>
  \<open>monitor_opportunities\<close> is \<open>while True\<close>: it never returns, and it ends only by an
  exception. The model runs a given number of cycles from cycle \<open>k\<close> on and yields what
  was handed to the callback in them and the exception that ended the loop, if any.
  Cycle \<open>j\<close> scans \<open>scan j\<close> and is answered by the strategy \<open>ai j\<close>.
\<close>

fun monitor_opportunities ::
  "finder \<Rightarrow> (nat \<Rightarrow> ai_strategy) \<Rightarrow> (nat \<Rightarrow> ArbitrageOpportunity list) \<Rightarrow>
   (ArbitrageOpportunity \<Rightarrow> py_exception + unit) \<Rightarrow> nat \<Rightarrow> nat \<Rightarrow>
   ArbitrageOpportunity list \<times> py_exception option" where
  "monitor_opportunities self ai scan callback k 0 = ([], None)"
| "monitor_opportunities self ai scan callback k (Suc cycles) =
     (case find_opportunities (ai k) (scan k) of
        Inl e \<Rightarrow> ([], Some e)
      | Inr opportunities \<Rightarrow>
          (case emit_validated self (ai k) callback opportunities of
             (emitted, Some e) \<Rightarrow> (emitted, Some e)
           | (emitted, None) \<Rightarrow>
               (case monitor_opportunities self ai scan callback (Suc k) cycles of
                  (later, raised) \<Rightarrow> (emitted @ later, raised))))"

section \<open>dashboard.py: the Execute button\<close>

text \<open>The lists \<open>ArbitrageBot.__init__\<close> puts into \<open>st.session_state\<close>.\<close>

record session_state =
  opportunities :: "ArbitrageOpportunity list"
  active_trades :: "ArbitrageOpportunity list"
  historical_trades :: "pydict list"

text \<open>What the page shows after a click: \<open>st.success\<close> or \<open>st.error\<close> with a message.\<close>

datatype notice = SuccessNotice string | ErrorNotice string

text \<open>\<open>execute_opportunity\<close>: the opportunity is appended to the active trades.\<close>

definition execute_opportunity ::
  "session_state \<Rightarrow> ArbitrageOpportunity \<Rightarrow> session_state \<times> notice" where
  "execute_opportunity st opportunity =
     (st\<lparr>active_trades := active_trades st @ [opportunity]\<rparr>,
      SuccessNotice ''Trade executed successfully!'')"

text \<open>A sequence of clicks on Execute, one opportunity each.\<close>

fun execute_clicks ::
  "session_state \<Rightarrow> ArbitrageOpportunity list \<Rightarrow> session_state \<times> notice list" where
  "execute_clicks st [] = (st, [])"
| "execute_clicks st (opp # opps) =
     (case execute_opportunity st opp of
        (st', shown) \<Rightarrow>
          (case execute_clicks st' opps of (st'', others) \<Rightarrow> (st'', shown # others)))"

definition empty_session :: session_state where
  "empty_session = \<lparr>opportunities = [], active_trades = [], historical_trades = []\<rparr>"

text \<open>The default of the "Maximum Trade Size (USD)" input of trade\_executor.py.\<close>

definition max_trade_size :: real where
  "max_trade_size = 10000"

section \<open>Auxiliary definitions and sample inputs\<close>

text \<open>
  The prices after a list of venue outcomes, each a key with the price returned or the
  exception raised: what the second pair of loops of \<open>fetch_all_prices\<close> computes,
  written over the list of outcomes.
\<close>

fun put_all :: "pydict \<Rightarrow> (string \<times> (py_exception + pyval)) list \<Rightarrow> pydict" where
  "put_all prices [] = prices"
| "put_all prices ((k, Inl e) # rest) = put_all prices rest"
| "put_all prices ((k, Inr v) # rest) = put_all (setitem prices k v) rest"

text \<open>A quote source that times out on one venue and answers on the others.\<close>

definition flaky_quotes :: "string \<Rightarrow> pyval \<Rightarrow> py_exception + pyval" where
  "flaky_quotes dex pair =
     (if dex = ''sushiswap'' then Inl (Raised ''timeout'') else Inr (PNum 100))"

text \<open>
  Three language-model services: one whose every call times out, one that answers the
  analysis but times out on the sentiment, and one that answers the sentiment with a
  number outside the range the prompt asks for.
\<close>

definition silent_openai :: openai_service where
  "silent_openai =
     \<lparr>chat_completion = (\<lambda>p. Inl (Raised ''timeout'')),
      text_completion = (\<lambda>p. Inl (Raised ''timeout'')),
      now_isoformat = ''2024-03-14T00:00:00''\<rparr>"

definition no_sentiment_openai :: openai_service where
  "no_sentiment_openai =
     \<lparr>chat_completion = (\<lambda>p. Inr ''The spread is stable.''),
      text_completion = (\<lambda>p. Inl (Raised ''timeout'')),
      now_isoformat = ''2024-03-14T00:00:00''\<rparr>"

definition harsh_openai :: openai_service where
  "harsh_openai =
     \<lparr>chat_completion = (\<lambda>p. Inr ''The spread is stable.''),
      text_completion = (\<lambda>p. Inr (Numeral (Finite (- 5)))),
      now_isoformat = ''2024-03-14T00:00:00''\<rparr>"

text \<open>
  A strategy object whose four calls all return: it recommends every opportunity and
  has nothing to say on paths, prices and sentiment.
\<close>

definition approval :: pydict where
  "approval = [(''risk_score'', PNum (9 / 10)), (''recommendation'', PStr ''execute'')]"

definition agreeable_strategy :: ai_strategy where
  "agreeable_strategy =
     \<lparr>ai_analyze_opportunity = (\<lambda>d. Inr (Some approval)),
      ai_optimize_execution_path = (\<lambda>p. Inr None),
      ai_predict_price_movement = (\<lambda>t. Inr None),
      ai_analyze_market_sentiment = (\<lambda>t. Inr None)\<rparr>"

text \<open>
  Variants of the sample opportunity: below the profit threshold, with gas costs above
  the estimated profit, with a very large capital, and with a loss.
\<close>

definition thin_opportunity :: ArbitrageOpportunity where
  "thin_opportunity = (sample_opportunity 0)\<lparr>profit_percentage := 2 / 10\<rparr>"

definition gas_heavy_opportunity :: ArbitrageOpportunity where
  "gas_heavy_opportunity =
     (sample_opportunity 0)\<lparr>gas_costs := [(''ethereum'', 200), (''polygon'', 1)]\<rparr>"

definition large_opportunity :: ArbitrageOpportunity where
  "large_opportunity = (sample_opportunity 0)\<lparr>required_capital := 1000000000\<rparr>"

definition losing_opportunity :: ArbitrageOpportunity where
  "losing_opportunity = (sample_opportunity 0)\<lparr>profit_percentage := - 60\<rparr>"

text \<open>A service that answers the sentiment with the text \<open>nan\<close>.\<close>

definition nan_openai :: openai_service where
  "nan_openai =
     \<lparr>chat_completion = (\<lambda>p. Inr ''The spread is stable.''),
      text_completion = (\<lambda>p. Inr (Numeral NaN)),
      now_isoformat = ''2024-03-14T00:00:00''\<rparr>"

text \<open>A service that answers the sentiment with a number in the range the prompt asks for.\<close>

definition calm_openai :: openai_service where
  "calm_openai =
     \<lparr>chat_completion = (\<lambda>p. Inr ''The spread is stable.''),
      text_completion = (\<lambda>p. Inr (Numeral (Finite (1 / 5)))),
      now_isoformat = ''2024-03-14T00:00:00''\<rparr>"

text \<open>The sample opportunity as \<open>find_opportunities\<close> returns it once it is recommended.\<close>

definition approved_opportunity :: ArbitrageOpportunity where
  "approved_opportunity = (sample_opportunity 0)\<lparr>ai_analysis := Some approval\<rparr>"

section \<open>Properties of the three-leg execution\<close>

subsection \<open>Running the statements of the try block\<close>

lemma then_do_expr:
  "then_do (expr v) f s = (case v of Inl e \<Rightarrow> (Inl e, s) | Inr a \<Rightarrow> f a s)"
  by (simp add: then_do_def expr_def split: sum.split)

lemma then_do_await:
  "then_do (await_leg self c) f s =
     (case run_leg self c of
        Inl e \<Rightarrow> (Inl e, s\<lparr>calls := calls s @ [c]\<rparr>)
      | Inr tx \<Rightarrow> f tx (s\<lparr>calls := calls s @ [c]\<rparr>))"
  by (simp add: then_do_def await_leg_def split: sum.split)

lemma then_do_append:
  "then_do (append_transaction tx) f s = f () (s\<lparr>transactions := transactions s @ [tx]\<rparr>)"
  by (simp add: then_do_def append_transaction_def)

lemma then_do_assoc: "then_do (then_do m f) g = then_do m (\<lambda>a. then_do (f a) g)"
  by (auto simp: then_do_def fun_eq_iff split: sum.split prod.split)

lemma then_do_if:
  "then_do (if b then m else n) f = (if b then then_do m f else then_do n f)"
  by simp

lemma expr_apply: "expr v s = (v, s)"
  by (simp add: expr_def)

lemma append_transaction_apply:
  "append_transaction tx s = (Inr (), s\<lparr>transactions := transactions s @ [tx]\<rparr>)"
  by (simp add: append_transaction_def)

lemma set_success_apply: "set_success s = (Inr (), s\<lparr>success := True\<rparr>)"
  by (simp add: set_success_def)

lemmas run_simps =
  then_do_assoc then_do_if then_do_expr then_do_await then_do_append
  expr_apply append_transaction_apply set_success_apply
  buy_step_def bridge_step_def sell_step_def try_block_def
  execute_arbitrage_with_def initial_run_def

lemma getitem_Nil: "getitem [] k = Inl (KeyError (PStr k))"
  by (simp add: getitem_def)

lemma getitem_Cons: "getitem ((k', v) # d) k = (if k' = k then Inr v else getitem d k)"
  by (simp add: getitem_def)

lemmas leg_simps =
  execute_arbitrage_def BlockchainInterface_def getitem_Nil getitem_Cons
  execute_dex_trade_def bridge_assets_def connections_def

subsection \<open>The shape of every run\<close>

text \<open>
  A run ends in one of three ways: every leg returned and the flag is set; or an
  exception was raised between legs (a missing key, say), after legs that all returned;
  or the last leg started raised, after legs that all returned.
\<close>

lemma run_shape:
  assumes "r = execute_arbitrage_with self opportunity"
  shows "(success r \<and> errors r = [] \<and>
            map (run_leg self) (calls r) = map Inr (transactions r)) \<or>
         (\<exists>e. \<not> success r \<and> errors r = [e] \<and>
            (map (run_leg self) (calls r) = map Inr (transactions r) \<or>
             (calls r \<noteq> [] \<and> run_leg self (last (calls r)) = Inl e \<and>
              map (run_leg self) (butlast (calls r)) = map Inr (transactions r))))"
  unfolding assms
  by (simp add: run_simps split: sum.split option.split)

lemma success_path:
  "success (execute_arbitrage_with self opportunity) \<longrightarrow>
     errors (execute_arbitrage_with self opportunity) = [] \<and>
     map (run_leg self) (calls (execute_arbitrage_with self opportunity)) =
       map Inr (transactions (execute_arbitrage_with self opportunity)) \<and>
     map leg_kind (calls (execute_arbitrage_with self opportunity)) =
       (if getitem opportunity ''source_chain'' \<noteq> getitem opportunity ''target_chain''
        then [''buy'', ''bridge'', ''sell''] else [''buy'', ''sell''])"
  by (simp add: run_simps split: sum.split option.split)

lemma returned_of_map:
  assumes "map f xs = map Inr ys" and "c \<in> set xs"
  shows "\<not> isl (f c)"
proof -
  from assms(2) have "f c \<in> set (map f xs)" by simp
  with assms(1) have "f c \<in> Inr ` set ys" by simp
  then show ?thesis by auto
qed

text \<open>The two sample runs, evaluated.\<close>

lemma unknown_target_run:
  "execute_arbitrage unknown_target_trade =
     \<lparr>success = False,
      transactions =
        [[(''chain'', PStr ''ethereum''), (''dex'', PStr ''uniswap''),
          (''action'', PStr ''buy''), (''amount'', PNum 10000),
          (''received_amount'', PNum 9900), (''tx_hash'', PStr ''0x...'')],
         [(''from_chain'', PStr ''ethereum''), (''to_chain'', PStr ''solana''),
          (''token'', PStr ''WETH''), (''amount'', PNum 9900),
          (''received_amount'', PNum (19701 / 2)), (''tx_hash'', PStr ''0x...'')]],
      errors = [KeyError (PStr ''solana'')],
      calls =
        [DexTrade (PStr ''ethereum'') (PStr ''uniswap'') ''buy'' (PNum 10000)
           (PTuple [PStr ''WETH'', PStr ''USDT'']),
         BridgeAssets (PStr ''ethereum'') (PStr ''solana'') (PStr ''WETH'') (PNum 9900),
         DexTrade (PStr ''solana'') (PStr ''raydium'') ''sell'' (PNum (19701 / 2))
           (PTuple [PStr ''WETH'', PStr ''USDT''])]\<rparr>"
  by (simp add: unknown_target_trade_def leg_simps run_simps)

lemma sample_run_success: "success (execute_arbitrage sample_trade)"
  by (simp add: sample_trade_def leg_simps run_simps)

subsection \<open>A failed leg stops the trade\<close>

text \<open>
  Claim C1. In every run of \<open>execute_arbitrage\<close>, whatever the legs do: every leg that
  was followed by another leg returned normally, so no leg is started after a failed
  one; a leg that raised is the last leg started, its exception is the one entry of
  \<open>errors\<close>, \<open>success\<close> is false and the transactions are those of the legs before it;
  and \<open>success\<close> is true only when no error was recorded and every leg of the plan
  (buy, bridge when the chains differ, sell) was started and returned.
\<close>

theorem leg_failure_stops_execution:
  assumes r: "r = execute_arbitrage_with self opportunity"
  shows "(\<forall>c \<in> set (butlast (calls r)). \<not> isl (run_leg self c)) \<and>
         (\<forall>c e. c \<in> set (calls r) \<and> run_leg self c = Inl e \<longrightarrow>
            c = last (calls r) \<and> errors r = [e] \<and> \<not> success r \<and>
            map Inr (transactions r) = map (run_leg self) (butlast (calls r))) \<and>
         (success r \<longrightarrow>
            errors r = [] \<and> map (run_leg self) (calls r) = map Inr (transactions r) \<and>
            map leg_kind (calls r) =
              (if getitem opportunity ''source_chain'' \<noteq> getitem opportunity ''target_chain''
               then [''buy'', ''bridge'', ''sell''] else [''buy'', ''sell'']))"
proof (intro conjI allI impI ballI)
  fix c assume c: "c \<in> set (butlast (calls r))"
  from run_shape [OF r] consider
      (all) "map (run_leg self) (calls r) = map Inr (transactions r)"
    | (last) "map (run_leg self) (butlast (calls r)) = map Inr (transactions r)"
    by blast
  then show "\<not> isl (run_leg self c)"
  proof cases
    case all
    from c have "c \<in> set (calls r)" by (rule in_set_butlastD)
    with all show ?thesis by (rule returned_of_map)
  next
    case last
    from last c show ?thesis by (rule returned_of_map)
  qed
next
  fix c e assume ce: "c \<in> set (calls r) \<and> run_leg self c = Inl e"
  then have cin: "c \<in> set (calls r)" and fails: "run_leg self c = Inl e" by simp_all
  have not_all: "map (run_leg self) (calls r) \<noteq> map Inr (transactions r)"
  proof
    assume "map (run_leg self) (calls r) = map Inr (transactions r)"
    then have "\<not> isl (run_leg self c)" using cin by (rule returned_of_map)
    with fails show False by simp
  qed
  with run_shape [OF r] obtain e' where
    e': "\<not> success r" "errors r = [e']" "calls r \<noteq> []"
        "run_leg self (last (calls r)) = Inl e'"
        "map (run_leg self) (butlast (calls r)) = map Inr (transactions r)"
    by blast
  have "c \<notin> set (butlast (calls r))"
  proof
    assume "c \<in> set (butlast (calls r))"
    with e'(5) have "\<not> isl (run_leg self c)" by (rule returned_of_map)
    with fails show False by simp
  qed
  moreover from e'(3) have "calls r = butlast (calls r) @ [last (calls r)]" by simp
  then have "set (calls r) = set (butlast (calls r)) \<union> {last (calls r)}"
    by (metis list.set(1) list.simps(15) set_append)
  ultimately have cl: "c = last (calls r)" using cin by blast
  with fails e'(4) have "e' = e" by simp
  with cl e' show "c = last (calls r)" "errors r = [e]" "\<not> success r"
    "map Inr (transactions r) = map (run_leg self) (butlast (calls r))" by simp_all
next
  assume s: "success r"
  with success_path [of self opportunity] r
  show "errors r = []" "map (run_leg self) (calls r) = map Inr (transactions r)"
    "map leg_kind (calls r) =
      (if getitem opportunity ''source_chain'' \<noteq> getitem opportunity ''target_chain''
       then [''buy'', ''bridge'', ''sell''] else [''buy'', ''sell''])"
    by simp_all
qed

text \<open>
  The trade aimed at an unknown chain: the purchase and the bridge return, the sale
  raises \<open>KeyError\<close>, and the theorem gives the recorded error and the cleared flag.
\<close>

theorem leg_failure_stops_execution_witness:
  "length (calls (execute_arbitrage unknown_target_trade)) = 3 \<and>
   run_leg BlockchainInterface (last (calls (execute_arbitrage unknown_target_trade))) =
     Inl (KeyError (PStr ''solana'')) \<and>
   errors (execute_arbitrage unknown_target_trade) = [KeyError (PStr ''solana'')] \<and>
   \<not> success (execute_arbitrage unknown_target_trade) \<and>
   length (transactions (execute_arbitrage unknown_target_trade)) = 2"
proof -
  let ?r = "execute_arbitrage unknown_target_trade"
  let ?c = "DexTrade (PStr ''solana'') (PStr ''raydium'') ''sell'' (PNum (19701 / 2))
              (PTuple [PStr ''WETH'', PStr ''USDT''])"
  have r: "?r = execute_arbitrage_with BlockchainInterface unknown_target_trade"
    by (simp add: execute_arbitrage_def)
  have started: "?c \<in> set (calls ?r)" and l: "last (calls ?r) = ?c"
    and n: "length (calls ?r) = 3" and t: "length (transactions ?r) = 2"
    by (simp_all add: unknown_target_run)
  have raised: "run_leg BlockchainInterface ?c = Inl (KeyError (PStr ''solana''))"
    by (simp add: leg_simps)
  from leg_failure_stops_execution [OF r] started raised
  have "errors ?r = [KeyError (PStr ''solana'')] \<and> \<not> success ?r"
    by blast
  with l n t raised show ?thesis by simp
qed

subsection \<open>The result is always returned\<close>

text \<open>
  Claim C10. \<open>execute_arbitrage\<close> is a total function of the opportunity and of what
  its legs do: an exception raised by a leg, or by the code between the legs, ends in
  the \<open>except\<close> clause and the result dictionary is returned all the same, with at most
  one error, and with \<open>success\<close> true exactly when \<open>errors\<close> is empty. (The exceptions
  of the model are the instances of \<open>Exception\<close>, which is what the clause catches.)
\<close>

theorem execute_arbitrage_total:
  "success (execute_arbitrage_with self opportunity) =
     (errors (execute_arbitrage_with self opportunity) = []) \<and>
   length (errors (execute_arbitrage_with self opportunity)) \<le> 1 \<and>
   length (transactions (execute_arbitrage_with self opportunity)) \<le> 3"
  by (simp add: run_simps split: sum.split option.split)

theorem execute_arbitrage_total_witness:
  "success (execute_arbitrage unknown_target_trade) =
     (errors (execute_arbitrage unknown_target_trade) = []) \<and>
   errors (execute_arbitrage unknown_target_trade) = [KeyError (PStr ''solana'')] \<and>
   success (execute_arbitrage sample_trade) \<and>
   errors (execute_arbitrage sample_trade) = []"
proof -
  from execute_arbitrage_total [of BlockchainInterface unknown_target_trade]
  have a: "success (execute_arbitrage unknown_target_trade) =
             (errors (execute_arbitrage unknown_target_trade) = [])"
    by (simp add: execute_arbitrage_def)
  from execute_arbitrage_total [of BlockchainInterface sample_trade] sample_run_success
  have b: "errors (execute_arbitrage sample_trade) = []"
    by (simp add: execute_arbitrage_def)
  from a b sample_run_success show ?thesis by (simp add: unknown_target_run)
qed

subsection \<open>Amounts along the legs\<close>

text \<open>
  A complete cross-chain run, whatever the legs are: three legs were started, the
  purchase with the required capital, the bridge with the \<open>received_amount\<close> of the
  transaction the purchase returned and the sale with the \<open>received_amount\<close> of the
  transaction the bridge returned; the transactions are what the three legs returned.
\<close>

lemma cross_chain_calls:
  "success (execute_arbitrage_with self opportunity) \<and>
   getitem opportunity ''source_chain'' \<noteq> getitem opportunity ''target_chain'' \<longrightarrow>
   (\<exists>src sdex tgt tdex pair tok cap buy_tx bridge_tx sell_tx a1 a2.
      getitem opportunity ''source_chain'' = Inr src \<and>
      getitem opportunity ''source_dex'' = Inr sdex \<and>
      getitem opportunity ''target_chain'' = Inr tgt \<and>
      getitem opportunity ''target_dex'' = Inr tdex \<and>
      getitem opportunity ''token_pair'' = Inr pair \<and>
      subscript0 pair = Inr tok \<and>
      getitem opportunity ''required_capital'' = Inr cap \<and>
      calls (execute_arbitrage_with self opportunity) =
        [DexTrade src sdex ''buy'' cap pair, BridgeAssets src tgt tok a1,
         DexTrade tgt tdex ''sell'' a2 pair] \<and>
      transactions (execute_arbitrage_with self opportunity) = [buy_tx, bridge_tx, sell_tx] \<and>
      dex_leg self src sdex ''buy'' cap pair = Inr buy_tx \<and>
      getitem buy_tx ''received_amount'' = Inr a1 \<and>
      bridge_leg self src tgt tok a1 = Inr bridge_tx \<and>
      getitem bridge_tx ''received_amount'' = Inr a2 \<and>
      dex_leg self tgt tdex ''sell'' a2 pair = Inr sell_tx)"
  by (simp add: run_simps split: sum.split option.split)

text \<open>The same run with the legs of the class and a capital \<open>c\<close> that is not negative.\<close>

lemma cross_chain_amounts:
  "success (execute_arbitrage opportunity) \<and>
   getitem opportunity ''source_chain'' \<noteq> getitem opportunity ''target_chain'' \<and>
   getitem opportunity ''required_capital'' = Inr (PNum c) \<and> 0 \<le> c \<longrightarrow>
   (\<exists>src sdex tgt tdex pair tok buy_tx bridge_tx sell_tx.
      calls (execute_arbitrage opportunity) =
        [DexTrade src sdex ''buy'' (PNum c) pair,
         BridgeAssets src tgt tok (PNum (c * (99 / 100))),
         DexTrade tgt tdex ''sell'' (PNum (c * (99 / 100) * (995 / 1000))) pair] \<and>
      transactions (execute_arbitrage opportunity) = [buy_tx, bridge_tx, sell_tx] \<and>
      getitem buy_tx ''amount'' = Inr (PNum c) \<and>
      getitem buy_tx ''received_amount'' = Inr (PNum (c * (99 / 100))) \<and>
      getitem bridge_tx ''amount'' = Inr (PNum (c * (99 / 100))) \<and>
      getitem bridge_tx ''received_amount'' = Inr (PNum (c * (99 / 100) * (995 / 1000))) \<and>
      getitem sell_tx ''amount'' = Inr (PNum (c * (99 / 100) * (995 / 1000))) \<and>
      getitem sell_tx ''received_amount'' =
        Inr (PNum (c * (99 / 100) * (995 / 1000) * (99 / 100))) \<and>
      c * (99 / 100) * (995 / 1000) * (99 / 100) \<le> c * (99 / 100) * (995 / 1000) \<and>
      c * (99 / 100) * (995 / 1000) \<le> c * (99 / 100) \<and>
      c * (99 / 100) \<le> c)"
  by (simp add: execute_arbitrage_def BlockchainInterface_def run_simps getitem_Nil
      getitem_Cons execute_dex_trade_def bridge_assets_def split: sum.split option.split)

text \<open>
  Claim C3. In a complete cross-chain execution, whatever the legs are, three legs are
  started: the purchase with the required capital, the bridge with exactly the
  \<open>received_amount\<close> of the transaction the purchase returned, and the sale with exactly
  the \<open>received_amount\<close> of the transaction the bridge returned; the three transactions
  recorded are the ones these legs returned. With the legs of the class and a required
  capital \<open>c\<close> that is not negative, the amounts are numbers, each transaction records
  the amount its leg was started with, and the received amounts do not increase from
  one leg to the next.
\<close>

theorem received_amounts_chain:
  "(success (execute_arbitrage_with self opportunity) \<and>
    getitem opportunity ''source_chain'' \<noteq> getitem opportunity ''target_chain'' \<longrightarrow>
    (\<exists>src sdex tgt tdex pair tok cap buy_tx bridge_tx sell_tx a1 a2.
       getitem opportunity ''required_capital'' = Inr cap \<and>
       calls (execute_arbitrage_with self opportunity) =
         [DexTrade src sdex ''buy'' cap pair, BridgeAssets src tgt tok a1,
          DexTrade tgt tdex ''sell'' a2 pair] \<and>
       transactions (execute_arbitrage_with self opportunity) =
         [buy_tx, bridge_tx, sell_tx] \<and>
       dex_leg self src sdex ''buy'' cap pair = Inr buy_tx \<and>
       getitem buy_tx ''received_amount'' = Inr a1 \<and>
       bridge_leg self src tgt tok a1 = Inr bridge_tx \<and>
       getitem bridge_tx ''received_amount'' = Inr a2 \<and>
       dex_leg self tgt tdex ''sell'' a2 pair = Inr sell_tx)) \<and>
   (success (execute_arbitrage opportunity) \<and>
    getitem opportunity ''source_chain'' \<noteq> getitem opportunity ''target_chain'' \<and>
    getitem opportunity ''required_capital'' = Inr (PNum c) \<and> 0 \<le> c \<longrightarrow>
    (\<exists>src sdex tgt tdex pair tok buy_tx bridge_tx sell_tx a1 a2 a3.
       calls (execute_arbitrage opportunity) =
         [DexTrade src sdex ''buy'' (PNum c) pair, BridgeAssets src tgt tok (PNum a1),
          DexTrade tgt tdex ''sell'' (PNum a2) pair] \<and>
       transactions (execute_arbitrage opportunity) = [buy_tx, bridge_tx, sell_tx] \<and>
       getitem buy_tx ''amount'' = Inr (PNum c) \<and>
       getitem buy_tx ''received_amount'' = Inr (PNum a1) \<and>
       getitem bridge_tx ''amount'' = Inr (PNum a1) \<and>
       getitem bridge_tx ''received_amount'' = Inr (PNum a2) \<and>
       getitem sell_tx ''amount'' = Inr (PNum a2) \<and>
       getitem sell_tx ''received_amount'' = Inr (PNum a3) \<and>
       a1 \<le> c \<and> a2 \<le> a1 \<and> a3 \<le> a2))"
proof (intro conjI impI)
  assume "success (execute_arbitrage_with self opportunity) \<and>
    getitem opportunity ''source_chain'' \<noteq> getitem opportunity ''target_chain''"
  with cross_chain_calls [of self opportunity]
  show "\<exists>src sdex tgt tdex pair tok cap buy_tx bridge_tx sell_tx a1 a2.
       getitem opportunity ''required_capital'' = Inr cap \<and>
       calls (execute_arbitrage_with self opportunity) =
         [DexTrade src sdex ''buy'' cap pair, BridgeAssets src tgt tok a1,
          DexTrade tgt tdex ''sell'' a2 pair] \<and>
       transactions (execute_arbitrage_with self opportunity) =
         [buy_tx, bridge_tx, sell_tx] \<and>
       dex_leg self src sdex ''buy'' cap pair = Inr buy_tx \<and>
       getitem buy_tx ''received_amount'' = Inr a1 \<and>
       bridge_leg self src tgt tok a1 = Inr bridge_tx \<and>
       getitem bridge_tx ''received_amount'' = Inr a2 \<and>
       dex_leg self tgt tdex ''sell'' a2 pair = Inr sell_tx"
    by blast
next
  assume "success (execute_arbitrage opportunity) \<and>
    getitem opportunity ''source_chain'' \<noteq> getitem opportunity ''target_chain'' \<and>
    getitem opportunity ''required_capital'' = Inr (PNum c) \<and> 0 \<le> c"
  with cross_chain_amounts [of opportunity c]
  show "\<exists>src sdex tgt tdex pair tok buy_tx bridge_tx sell_tx a1 a2 a3.
       calls (execute_arbitrage opportunity) =
         [DexTrade src sdex ''buy'' (PNum c) pair, BridgeAssets src tgt tok (PNum a1),
          DexTrade tgt tdex ''sell'' (PNum a2) pair] \<and>
       transactions (execute_arbitrage opportunity) = [buy_tx, bridge_tx, sell_tx] \<and>
       getitem buy_tx ''amount'' = Inr (PNum c) \<and>
       getitem buy_tx ''received_amount'' = Inr (PNum a1) \<and>
       getitem bridge_tx ''amount'' = Inr (PNum a1) \<and>
       getitem bridge_tx ''received_amount'' = Inr (PNum a2) \<and>
       getitem sell_tx ''amount'' = Inr (PNum a2) \<and>
       getitem sell_tx ''received_amount'' = Inr (PNum a3) \<and>
       a1 \<le> c \<and> a2 \<le> a1 \<and> a3 \<le> a2"
    by blast
qed

text \<open>
  The sample trade from Ethereum to Polygon with a capital of 10000: the bridge is
  started with what the purchase received and the sale with what the bridge received.
\<close>

theorem received_amounts_chain_witness:
  "success (execute_arbitrage sample_trade) \<and>
   getitem sample_trade ''source_chain'' \<noteq> getitem sample_trade ''target_chain'' \<and>
   getitem sample_trade ''required_capital'' = Inr (PNum 10000) \<and>
   (\<exists>src sdex tgt tdex pair tok buy_tx bridge_tx sell_tx a1 a2 a3.
      calls (execute_arbitrage sample_trade) =
        [DexTrade src sdex ''buy'' (PNum 10000) pair, BridgeAssets src tgt tok (PNum a1),
         DexTrade tgt tdex ''sell'' (PNum a2) pair] \<and>
      transactions (execute_arbitrage sample_trade) = [buy_tx, bridge_tx, sell_tx] \<and>
      getitem buy_tx ''amount'' = Inr (PNum 10000) \<and>
      getitem buy_tx ''received_amount'' = Inr (PNum a1) \<and>
      getitem bridge_tx ''amount'' = Inr (PNum a1) \<and>
      getitem bridge_tx ''received_amount'' = Inr (PNum a2) \<and>
      getitem sell_tx ''amount'' = Inr (PNum a2) \<and>
      getitem sell_tx ''received_amount'' = Inr (PNum a3) \<and>
      a1 \<le> 10000 \<and> a2 \<le> a1 \<and> a3 \<le> a2) \<and>
   (\<exists>src sdex tgt tdex pair tok cap buy_tx bridge_tx sell_tx a1 a2.
      calls (execute_arbitrage_with BlockchainInterface sample_trade) =
        [DexTrade src sdex ''buy'' cap pair, BridgeAssets src tgt tok a1,
         DexTrade tgt tdex ''sell'' a2 pair] \<and>
      transactions (execute_arbitrage_with BlockchainInterface sample_trade) =
        [buy_tx, bridge_tx, sell_tx] \<and>
      getitem buy_tx ''received_amount'' = Inr a1 \<and>
      getitem bridge_tx ''received_amount'' = Inr a2)"
proof -
  have chains: "getitem sample_trade ''source_chain'' \<noteq> getitem sample_trade ''target_chain''"
    by (simp add: sample_trade_def getitem_Cons)
  have capital: "getitem sample_trade ''required_capital'' = Inr (PNum 10000)"
    by (simp add: sample_trade_def getitem_Cons)
  have nonneg: "(0::real) \<le> 10000" by simp
  have ran: "success (execute_arbitrage_with BlockchainInterface sample_trade)"
    using sample_run_success by (simp add: execute_arbitrage_def)
  note chain = received_amounts_chain [of BlockchainInterface sample_trade 10000]
  from chain sample_run_success chains capital nonneg
  have numbers: "\<exists>src sdex tgt tdex pair tok buy_tx bridge_tx sell_tx a1 a2 a3.
      calls (execute_arbitrage sample_trade) =
        [DexTrade src sdex ''buy'' (PNum 10000) pair, BridgeAssets src tgt tok (PNum a1),
         DexTrade tgt tdex ''sell'' (PNum a2) pair] \<and>
      transactions (execute_arbitrage sample_trade) = [buy_tx, bridge_tx, sell_tx] \<and>
      getitem buy_tx ''amount'' = Inr (PNum 10000) \<and>
      getitem buy_tx ''received_amount'' = Inr (PNum a1) \<and>
      getitem bridge_tx ''amount'' = Inr (PNum a1) \<and>
      getitem bridge_tx ''received_amount'' = Inr (PNum a2) \<and>
      getitem sell_tx ''amount'' = Inr (PNum a2) \<and>
      getitem sell_tx ''received_amount'' = Inr (PNum a3) \<and>
      a1 \<le> 10000 \<and> a2 \<le> a1 \<and> a3 \<le> a2"
    by blast
  from chain ran chains
  have started: "\<exists>src sdex tgt tdex pair tok cap buy_tx bridge_tx sell_tx a1 a2.
      calls (execute_arbitrage_with BlockchainInterface sample_trade) =
        [DexTrade src sdex ''buy'' cap pair, BridgeAssets src tgt tok a1,
         DexTrade tgt tdex ''sell'' a2 pair] \<and>
      transactions (execute_arbitrage_with BlockchainInterface sample_trade) =
        [buy_tx, bridge_tx, sell_tx] \<and>
      getitem buy_tx ''received_amount'' = Inr a1 \<and>
      getitem bridge_tx ''received_amount'' = Inr a2"
    by blast
  from sample_run_success chains capital numbers started show ?thesis by blast
qed

section \<open>Properties of the price fetcher\<close>

subsection \<open>The two loops as one pass over the outcomes\<close>

lemma collect_dexes_run:
  "collect_dexes (pre @ map g dexes @ post) chain dexes (prices, length pre) =
     Inr (put_all prices (map (\<lambda>dex. (market_key chain dex, g dex)) dexes),
          length pre + length dexes)"
proof (induction dexes arbitrary: pre prices)
  case Nil
  show ?case by simp
next
  case (Cons dex dexes)
  let ?rs = "pre @ map g (dex # dexes) @ post"
  have here: "?rs ! length pre = g dex" by (simp add: nth_append)
  have lt: "length pre < length ?rs" by simp
  have later: "collect_dexes ?rs chain dexes (p, Suc (length pre)) =
      Inr (put_all p (map (\<lambda>dex. (market_key chain dex, g dex)) dexes),
           Suc (length pre) + length dexes)" for p
    using Cons.IH [of "pre @ [g dex]" p] by simp
  show ?case
  proof (cases "g dex")
    case (Inl e)
    with here lt later [of prices] show ?thesis by simp
  next
    case (Inr v)
    with here lt later [of "setitem prices (market_key chain dex) v"] show ?thesis by simp
  qed
qed

lemma put_all_append: "put_all prices (xs @ ys) = put_all (put_all prices xs) ys"
  by (induction prices xs rule: put_all.induct) simp_all

lemma collect_chains_run:
  "collect_chains (pre @ concat (map (\<lambda>(chain, dexes). map g dexes) table) @ post) table
     (prices, length pre) =
   Inr (put_all prices
          (concat (map (\<lambda>(chain, dexes). map (\<lambda>dex. (market_key chain dex, g dex)) dexes) table)),
        length pre + length (concat (map snd table)))"
proof (induction table arbitrary: pre prices)
  case Nil
  show ?case by simp
next
  case (Cons row table)
  obtain chain dexes where row: "row = (chain, dexes)" by (cases row)
  let ?rest = "concat (map (\<lambda>(chain, dexes). map g dexes) table)"
  let ?rs = "pre @ concat (map (\<lambda>(chain, dexes). map g dexes) (row # table)) @ post"
  let ?p = "put_all prices (map (\<lambda>dex. (market_key chain dex, g dex)) dexes)"
  have first: "collect_dexes ?rs chain dexes (prices, length pre) =
     Inr (?p, length pre + length dexes)"
    using collect_dexes_run [of pre g dexes "?rest @ post" chain prices] by (simp add: row)
  have "collect_chains ?rs table (?p, length pre + length dexes) =
        Inr (put_all ?p
               (concat (map (\<lambda>(chain, dexes). map (\<lambda>dex. (market_key chain dex, g dex)) dexes) table)),
             length pre + length dexes + length (concat (map snd table)))"
    using Cons.IH [of "pre @ map g dexes" ?p] by (simp add: row)
  with first show ?case by (simp add: row put_all_append)
qed

text \<open>
  \<open>fetch_all_prices\<close> never raises \<open>IndexError\<close>: \<open>gather\<close> returns one outcome per
  task, in the order of the tasks, and the second pair of loops walks the same table.
\<close>

lemma fetch_all_prices_run:
  "fetch_all_prices_with fetch tp =
     Inr (put_all [] (map (\<lambda>(chain, dex). (market_key chain dex, fetch dex tp)) venues))"
proof -
  have "collect_chains ([] @ concat (map (\<lambda>(chain, dexes). map (\<lambda>dex. fetch dex tp) dexes) supported_dexes) @ [])
          supported_dexes ([], length ([] :: (py_exception + pyval) list)) =
        Inr (put_all []
          (concat (map (\<lambda>(chain, dexes). map (\<lambda>dex. (market_key chain dex, fetch dex tp)) dexes) supported_dexes)),
          length ([] :: (py_exception + pyval) list) + length (concat (map snd supported_dexes)))"
    by (rule collect_chains_run)
  moreover have "map (\<lambda>(chain, dex). (market_key chain dex, fetch dex tp)) venues =
     concat (map (\<lambda>(chain, dexes). map (\<lambda>dex. (market_key chain dex, fetch dex tp)) dexes) supported_dexes)"
    by (simp add: venues_def map_concat comp_def split_def)
  ultimately show ?thesis
    by (simp add: fetch_all_prices_with_def gather_prices_def)
qed

subsection \<open>Keys and values of the price dictionary\<close>

lemma fst_setitem: "fst ` set (setitem d k v) = insert k (fst ` set d)"
  by (induction d k v rule: setitem.induct) auto

lemma map_of_setitem: "map_of (setitem d k v) = (map_of d)(k \<mapsto> v)"
  by (induction d k v rule: setitem.induct) auto

lemma put_all_keys:
  "fst ` set (put_all prices kvs) = fst ` set prices \<union> {k. \<exists>v. (k, Inr v) \<in> set kvs}"
  by (induction prices kvs rule: put_all.induct) (auto simp: fst_setitem)

lemma put_all_other:
  "k \<notin> fst ` set kvs \<Longrightarrow> map_of (put_all prices kvs) k = map_of prices k"
  by (induction prices kvs rule: put_all.induct) (auto simp: map_of_setitem)

lemma put_all_lookup:
  "distinct (map fst kvs) \<Longrightarrow> (k, Inr v) \<in> set kvs \<Longrightarrow> map_of (put_all prices kvs) k = Some v"
proof (induction prices kvs rule: put_all.induct)
  case (1 prices)
  then show ?case by simp
next
  case (2 prices k' e rest)
  then show ?case by auto
next
  case (3 prices k' v' rest)
  show ?case
  proof (cases "(k, Inr v) \<in> set rest")
    case True
    with 3 show ?thesis by simp
  next
    case False
    with 3 have "k = k'" "v = v'" "k \<notin> fst ` set rest" by auto
    then show ?thesis by (simp add: put_all_other map_of_setitem)
  qed
qed

lemma venues_eval:
  "venues = [(''ethereum'', ''uniswap''), (''ethereum'', ''sushiswap''),
     (''bsc'', ''pancakeswap''), (''polygon'', ''quickswap''), (''avalanche'', ''traderjoe'')]"
  by (simp add: venues_def supported_dexes_def)

lemma venue_keys_distinct: "distinct (map (\<lambda>(chain, dex). market_key chain dex) venues)"
  by (simp add: venues_eval market_key_def)

text \<open>
  Claim C9. Whatever each venue's fetch does for the token pair, \<open>fetch_all_prices\<close>
  returns a dictionary: its keys are exactly the keys \<open>chain_dex\<close> of the venues of
  \<open>supported_dexes\<close> whose fetch did not raise, and each of them holds the price that
  venue's fetch returned. A venue that raised has no entry and takes no other entry
  away.
\<close>

theorem fetch_all_prices_entries:
  "\<exists>prices. fetch_all_prices_with fetch tp = Inr prices \<and>
     fst ` set prices =
       (\<lambda>(chain, dex). market_key chain dex) `
         {(chain, dex). (chain, dex) \<in> set venues \<and> \<not> isl (fetch dex tp)} \<and>
     (\<forall>chain dex v. (chain, dex) \<in> set venues \<and> fetch dex tp = Inr v \<longrightarrow>
        map_of prices (market_key chain dex) = Some v)"
proof -
  let ?kvs = "map (\<lambda>(chain, dex). (market_key chain dex, fetch dex tp)) venues"
  have d: "distinct (map fst ?kvs)"
    using venue_keys_distinct by (simp add: comp_def split_def)
  have "{k. \<exists>v. (k, Inr v) \<in> set ?kvs} =
      (\<lambda>(chain, dex). market_key chain dex) `
        {(chain, dex). (chain, dex) \<in> set venues \<and> \<not> isl (fetch dex tp)}"
    (is "?L = ?R")
  proof (intro set_eqI iffI)
    fix k assume "k \<in> ?L"
    then obtain v chain dex where "(chain, dex) \<in> set venues" "k = market_key chain dex"
      "fetch dex tp = Inr v" by (auto dest: sym)
    then show "k \<in> ?R" by force
  next
    fix k assume "k \<in> ?R"
    then obtain chain dex where cd: "(chain, dex) \<in> set venues" "k = market_key chain dex"
      "\<not> isl (fetch dex tp)" by auto
    then obtain v where "fetch dex tp = Inr v" by (cases "fetch dex tp") auto
    with cd have "(k, Inr v) \<in> set ?kvs" by force
    then show "k \<in> ?L" by blast
  qed
  then have keys: "fst ` set (put_all [] ?kvs) =
      (\<lambda>(chain, dex). market_key chain dex) `
        {(chain, dex). (chain, dex) \<in> set venues \<and> \<not> isl (fetch dex tp)}"
    by (simp add: put_all_keys)
  have vals: "map_of (put_all [] ?kvs) (market_key chain dex) = Some v"
    if "(chain, dex) \<in> set venues" "fetch dex tp = Inr v" for chain dex v
  proof -
    from that have "(market_key chain dex, Inr v) \<in> set ?kvs" by force
    with d show ?thesis by (rule put_all_lookup)
  qed
  from keys vals show ?thesis unfolding fetch_all_prices_run by blast
qed

text \<open>
  With SushiSwap timing out and every other venue answering 100, the price of Uniswap
  on Ethereum is in the dictionary and no entry stands for SushiSwap.
\<close>

theorem fetch_all_prices_entries_witness:
  "(''ethereum'', ''uniswap'') \<in> set venues \<and>
   flaky_quotes ''uniswap'' (PTuple [PStr ''WETH'', PStr ''USDT'']) = Inr (PNum 100) \<and>
   isl (flaky_quotes ''sushiswap'' (PTuple [PStr ''WETH'', PStr ''USDT''])) \<and>
   (\<exists>prices. fetch_all_prices_with flaky_quotes (PTuple [PStr ''WETH'', PStr ''USDT'']) =
        Inr prices \<and>
      map_of prices (market_key ''ethereum'' ''uniswap'') = Some (PNum 100) \<and>
      market_key ''ethereum'' ''sushiswap'' \<notin> fst ` set prices)"
proof -
  let ?tp = "PTuple [PStr ''WETH'', PStr ''USDT'']"
  from fetch_all_prices_entries [of flaky_quotes ?tp] obtain prices where
    p: "fetch_all_prices_with flaky_quotes ?tp = Inr prices" and
    keys: "fst ` set prices =
       (\<lambda>(chain, dex). market_key chain dex) `
         {(chain, dex). (chain, dex) \<in> set venues \<and> \<not> isl (flaky_quotes dex ?tp)}" and
    vals: "\<forall>chain dex v. (chain, dex) \<in> set venues \<and> flaky_quotes dex ?tp = Inr v \<longrightarrow>
        map_of prices (market_key chain dex) = Some v"
    by blast
  have v: "(''ethereum'', ''uniswap'') \<in> set venues" by (simp add: venues_eval)
  have f: "flaky_quotes ''uniswap'' ?tp = Inr (PNum 100)" by (simp add: flaky_quotes_def)
  have g: "isl (flaky_quotes ''sushiswap'' ?tp)" by (simp add: flaky_quotes_def)
  from vals v f have "map_of prices (market_key ''ethereum'' ''uniswap'') = Some (PNum 100)"
    by blast
  moreover have "market_key ''ethereum'' ''sushiswap'' \<notin> fst ` set prices"
    unfolding keys by (auto simp: venues_eval flaky_quotes_def market_key_def)
  ultimately show ?thesis using p v f g by blast
qed

section \<open>Properties of the finder\<close>

subsection \<open>What reaches the callback\<close>

lemma validate_low_profit:
  "profit_percentage opp < min_profit_threshold self \<Longrightarrow>
     validate_opportunity self ai opp = Inr False"
  by (simp add: validate_opportunity_def)

lemma validate_True_profit:
  "validate_opportunity self ai opp = Inr True \<Longrightarrow>
     \<not> profit_percentage opp < min_profit_threshold self"
  by (auto simp: validate_opportunity_def)

lemma emit_validated_sound:
  "opp \<in> set (fst (emit_validated self ai cb opps)) \<Longrightarrow>
     opp \<in> set opps \<and> validate_opportunity self ai opp = Inr True"
  by (induction opps) (auto split: sum.splits bool.splits prod.splits)

lemma monitor_sound:
  "opp \<in> set (fst (monitor_opportunities self ais scan cb k n)) \<Longrightarrow>
     \<exists>j found. k \<le> j \<and> j < k + n \<and> find_opportunities (ais j) (scan j) = Inr found \<and>
        opp \<in> set found \<and> validate_opportunity self (ais j) opp = Inr True"
proof (induction n arbitrary: k)
  case 0
  then show ?case by simp
next
  case (Suc n)
  show ?case
  proof (cases "find_opportunities (ais k) (scan k)")
    case (Inl e)
    with Suc.prems show ?thesis by simp
  next
    case (Inr found)
    obtain emitted raised where ev: "emit_validated self (ais k) cb found = (emitted, raised)"
      by (cases "emit_validated self (ais k) cb found")
    obtain later raised' where
      mon: "monitor_opportunities self ais scan cb (Suc k) n = (later, raised')"
      by (cases "monitor_opportunities self ais scan cb (Suc k) n")
    from Suc.prems Inr ev mon have "opp \<in> set emitted \<or> opp \<in> set later"
      by (cases raised) auto
    then show ?thesis
    proof
      assume "opp \<in> set emitted"
      with ev have "opp \<in> set (fst (emit_validated self (ais k) cb found))" by simp
      from emit_validated_sound [OF this] Inr show ?thesis by (intro exI [of _ k]) auto
    next
      assume "opp \<in> set later"
      with mon have "opp \<in> set (fst (monitor_opportunities self ais scan cb (Suc k) n))"
        by simp
      from Suc.IH [OF this] obtain j found' where
        "Suc k \<le> j" "j < Suc k + n" "find_opportunities (ais j) (scan j) = Inr found'"
        "opp \<in> set found'" "validate_opportunity self (ais j) opp = Inr True" by blast
      then show ?thesis by (intro exI [of _ j] exI [of _ found']) auto
    qed
  qed
qed

text \<open>The samples, evaluated.\<close>

lemma approved_validates:
  "validate_opportunity ArbitrageFinder agreeable_strategy approved_opportunity = Inr True"
  by (simp add: validate_opportunity_def ArbitrageFinder_def agreeable_strategy_def
      approved_opportunity_def sample_opportunity_def approval_def getitem_Cons)

lemma approved_found:
  "find_opportunities agreeable_strategy (find_raw_opportunities 0) = Inr [approved_opportunity]"
  by (simp add: find_opportunities_def find_raw_opportunities_def agreeable_strategy_def
      recommends_execute_def approval_def getitem_Cons approved_opportunity_def)

lemma approved_emitted:
  "fst (monitor_opportunities ArbitrageFinder (\<lambda>j. agreeable_strategy)
          (\<lambda>j. find_raw_opportunities 0) (\<lambda>opp. Inr ()) 0 (Suc 0)) = [approved_opportunity]"
  by (simp add: approved_found approved_validates)

text \<open>
  Claim C4. An opportunity whose profit percentage is below \<open>min_profit_threshold\<close> is
  refused by \<open>validate_opportunity\<close>, whatever the strategy object answers; and an
  opportunity that \<open>monitor_opportunities\<close> handed to the callback in some cycle was
  found in that cycle and validated there with the result \<open>True\<close>, so its profit
  percentage is not below the threshold.
\<close>

theorem below_threshold_never_emitted:
  "(profit_percentage opp < min_profit_threshold self \<longrightarrow>
      validate_opportunity self ai opp = Inr False) \<and>
   (opp \<in> set (fst (monitor_opportunities self ais scan callback k cycles)) \<longrightarrow>
      (\<exists>j found. k \<le> j \<and> j < k + cycles \<and>
         find_opportunities (ais j) (scan j) = Inr found \<and> opp \<in> set found \<and>
         validate_opportunity self (ais j) opp = Inr True) \<and>
      \<not> profit_percentage opp < min_profit_threshold self)"
proof (intro conjI impI)
  assume "profit_percentage opp < min_profit_threshold self"
  then show "validate_opportunity self ai opp = Inr False" by (rule validate_low_profit)
next
  assume "opp \<in> set (fst (monitor_opportunities self ais scan callback k cycles))"
  then show "\<exists>j found. k \<le> j \<and> j < k + cycles \<and>
         find_opportunities (ais j) (scan j) = Inr found \<and> opp \<in> set found \<and>
         validate_opportunity self (ais j) opp = Inr True"
    by (rule monitor_sound)
next
  assume "opp \<in> set (fst (monitor_opportunities self ais scan callback k cycles))"
  from monitor_sound [OF this] obtain j where
    "validate_opportunity self (ais j) opp = Inr True" by blast
  then show "\<not> profit_percentage opp < min_profit_threshold self"
    by (rule validate_True_profit)
qed

text \<open>
  With a strategy object that recommends the sample opportunity, one cycle hands it to
  the callback, and its 1.2 percent are not below the threshold of 0.5; the sample
  with 0.2 percent is refused.
\<close>

theorem below_threshold_never_emitted_witness:
  "profit_percentage thin_opportunity < min_profit_threshold ArbitrageFinder \<and>
   validate_opportunity ArbitrageFinder agreeable_strategy thin_opportunity = Inr False \<and>
   approved_opportunity \<in> set (fst (monitor_opportunities ArbitrageFinder
      (\<lambda>j. agreeable_strategy) (\<lambda>j. find_raw_opportunities 0) (\<lambda>opp. Inr ()) 0 (Suc 0))) \<and>
   validate_opportunity ArbitrageFinder agreeable_strategy approved_opportunity = Inr True \<and>
   \<not> profit_percentage approved_opportunity < min_profit_threshold ArbitrageFinder"
proof -
  have thin: "profit_percentage thin_opportunity < min_profit_threshold ArbitrageFinder"
    by (simp add: thin_opportunity_def ArbitrageFinder_def)
  have emitted: "approved_opportunity \<in> set (fst (monitor_opportunities ArbitrageFinder
      (\<lambda>j. agreeable_strategy) (\<lambda>j. find_raw_opportunities 0) (\<lambda>opp. Inr ()) 0 (Suc 0)))"
    by (simp only: approved_emitted) simp
  from below_threshold_never_emitted
    [of thin_opportunity ArbitrageFinder agreeable_strategy] thin
  have "validate_opportunity ArbitrageFinder agreeable_strategy thin_opportunity = Inr False"
    by blast
  moreover from below_threshold_never_emitted
    [of approved_opportunity ArbitrageFinder _ "\<lambda>j. agreeable_strategy"
        "\<lambda>j. find_raw_opportunities 0" "\<lambda>opp. Inr ()" 0 "Suc 0"] emitted
  have "\<not> profit_percentage approved_opportunity < min_profit_threshold ArbitrageFinder"
    by blast
  ultimately show ?thesis using thin emitted approved_validates by blast
qed

subsection \<open>The gas gate\<close>

text \<open>
  Claim C6. When the sum of the gas costs exceeds the estimated profit,
  \<open>validate_opportunity\<close> returns \<open>False\<close>. When the sum is at most the estimated
  profit the gas test lets the opportunity through: the result is \<open>True\<close> if the profit
  reaches the threshold and there is no analysis to consult, and a refusal can only
  come from the profit threshold or from the tests on the analysis.
\<close>

theorem gas_gate_decides:
  "(sum_list (map snd (gas_costs opp)) > estimated_profit_usd opp \<longrightarrow>
      validate_opportunity self ai opp = Inr False) \<and>
   (sum_list (map snd (gas_costs opp)) \<le> estimated_profit_usd opp \<and>
      \<not> profit_percentage opp < min_profit_threshold self \<and> \<not> truthy (ai_analysis opp) \<longrightarrow>
      validate_opportunity self ai opp = Inr True) \<and>
   (sum_list (map snd (gas_costs opp)) \<le> estimated_profit_usd opp \<and>
      validate_opportunity self ai opp = Inr False \<longrightarrow>
      profit_percentage opp < min_profit_threshold self \<or> truthy (ai_analysis opp))"
  by (auto simp: validate_opportunity_def)

text \<open>
  Gas costs of 201 against an estimated profit of 150 are refused; the sample's 0.051
  are let through.
\<close>

theorem gas_gate_decides_witness:
  "sum_list (map snd (gas_costs gas_heavy_opportunity)) >
     estimated_profit_usd gas_heavy_opportunity \<and>
   validate_opportunity ArbitrageFinder (AIStrategy silent_openai) gas_heavy_opportunity =
     Inr False \<and>
   sum_list (map snd (gas_costs (sample_opportunity 0))) \<le>
     estimated_profit_usd (sample_opportunity 0) \<and>
   \<not> profit_percentage (sample_opportunity 0) < min_profit_threshold ArbitrageFinder \<and>
   \<not> truthy (ai_analysis (sample_opportunity 0)) \<and>
   validate_opportunity ArbitrageFinder (AIStrategy silent_openai) (sample_opportunity 0) =
     Inr True"
proof -
  have heavy: "sum_list (map snd (gas_costs gas_heavy_opportunity)) >
      estimated_profit_usd gas_heavy_opportunity"
    by (simp add: gas_heavy_opportunity_def sample_opportunity_def)
  have light: "sum_list (map snd (gas_costs (sample_opportunity 0))) \<le>
      estimated_profit_usd (sample_opportunity 0)"
    by (simp add: sample_opportunity_def)
  have profit: "\<not> profit_percentage (sample_opportunity 0) < min_profit_threshold ArbitrageFinder"
    by (simp add: sample_opportunity_def ArbitrageFinder_def)
  have bare: "\<not> truthy (ai_analysis (sample_opportunity 0))"
    by (simp add: sample_opportunity_def)
  from gas_gate_decides
    [of gas_heavy_opportunity ArbitrageFinder "AIStrategy silent_openai"] heavy
  have "validate_opportunity ArbitrageFinder (AIStrategy silent_openai)
      gas_heavy_opportunity = Inr False"
    by blast
  moreover from gas_gate_decides
    [of "sample_opportunity 0" ArbitrageFinder "AIStrategy silent_openai"] light profit bare
  have "validate_opportunity ArbitrageFinder (AIStrategy silent_openai)
      (sample_opportunity 0) = Inr True"
    by blast
  ultimately show ?thesis using heavy light profit bare by blast
qed

subsection \<open>Required capital\<close>

text \<open>
  Claim C7, as the code has it. \<open>validate_opportunity\<close> never reads the required
  capital and no maximum capital enters it: changing the required capital of an
  opportunity does not change the result, and an opportunity without analysis is
  accepted exactly when its profit percentage reaches the threshold and its gas costs
  do not exceed the estimated profit.
\<close>

theorem validation_ignores_capital:
  "validate_opportunity self ai (opp\<lparr>required_capital := c\<rparr>) =
     validate_opportunity self ai opp \<and>
   (\<not> truthy (ai_analysis opp) \<longrightarrow>
      validate_opportunity self ai opp =
        Inr (\<not> profit_percentage opp < min_profit_threshold self \<and>
             \<not> sum_list (map snd (gas_costs opp)) > estimated_profit_usd opp))"
  by (simp add: validate_opportunity_def cong: sum.case_cong bool.case_cong if_cong)

theorem validation_ignores_capital_witness:
  "\<not> truthy (ai_analysis (sample_opportunity 0)) \<and>
   validate_opportunity ArbitrageFinder (AIStrategy silent_openai)
     ((sample_opportunity 0)\<lparr>required_capital := 1000000000\<rparr>) = Inr True \<and>
   validate_opportunity ArbitrageFinder (AIStrategy silent_openai) (sample_opportunity 0) =
     Inr True"
proof -
  have bare: "\<not> truthy (ai_analysis (sample_opportunity 0))"
    by (simp add: sample_opportunity_def)
  from validation_ignores_capital
    [of ArbitrageFinder "AIStrategy silent_openai" 1000000000 "sample_opportunity 0"] bare
  show ?thesis by (simp add: sample_opportunity_def ArbitrageFinder_def)
qed

text \<open>
  An opportunity that requires a capital of 1000000000, far above the maximum trade
  size of 10000, is accepted.
\<close>

theorem capital_gate_counterexample:
  "max_trade_size < required_capital large_opportunity \<and>
   validate_opportunity ArbitrageFinder (AIStrategy silent_openai) large_opportunity =
     Inr True"
  by (simp add: max_trade_size_def large_opportunity_def sample_opportunity_def
      validate_opportunity_def ArbitrageFinder_def)

section \<open>Properties of the advisory calls\<close>

subsection \<open>A failed analysis\<close>

lemma prompt_built:
  "create_analysis_prompt (opportunity_data opp) =
     Inr (AnalysisPrompt (PStr (source_chain opp)) (PStr (target_chain opp))
            (PTuple [PStr (fst (token_pair opp)), PStr (snd (token_pair opp))])
            (PNum (estimated_profit_usd opp)) (PNum (profit_percentage opp))
            (PNum (required_capital opp)))"
  by (simp add: create_analysis_prompt_def opportunity_data_def getitem_Cons)

lemma sentiment_default:
  "text_completion openai (SentimentPrompt txt) = Inl e \<Longrightarrow>
     analyze_text_sentiment openai txt = Finite (1 / 2)"
  by (simp add: analyze_text_sentiment_def)

lemma sample_profit: "getitem (opportunity_data opp) ''profit_percentage'' =
    Inr (PNum (profit_percentage opp))"
  by (simp add: opportunity_data_def getitem_Cons)

lemma sample_capital: "getitem (opportunity_data opp) ''required_capital'' =
    Inr (PNum (required_capital opp))"
  by (simp add: opportunity_data_def getitem_Cons)

text \<open>
  Claim C5, as the code has it. When the chat call of \<open>analyze_opportunity\<close> raises,
  the \<open>except\<close> clause returns \<open>None\<close>: no score is given, neutral or other, no
  exception leaves the call, and \<open>find_opportunities\<close> passes over the opportunity, so
  that it is not in the list returned. When the sentiment call raises, the sentiment
  is the neutral 0.5.
\<close>

theorem failed_analysis_drops_opportunity:
  assumes "create_analysis_prompt (opportunity_data opp) = Inr request"
    and "chat_completion openai request = Inl e"
  shows "analyze_opportunity openai (opportunity_data opp) = Inr None \<and>
         analyze_each (AIStrategy openai) (opp # rest) found =
           analyze_each (AIStrategy openai) rest found \<and>
         find_opportunities (AIStrategy openai) [opp] = Inr [] \<and>
         (\<forall>txt e'. text_completion openai (SentimentPrompt txt) = Inl e' \<longrightarrow>
            analyze_text_sentiment openai txt = Finite (1 / 2))"
proof -
  from assms have a: "analyze_opportunity openai (opportunity_data opp) = Inr None"
    by (simp add: analyze_opportunity_def)
  then have "analyze_each (AIStrategy openai) (opp # rest) found =
           analyze_each (AIStrategy openai) rest found"
    and "find_opportunities (AIStrategy openai) [opp] = Inr []"
    by (simp_all add: find_opportunities_def AIStrategy_def recommends_execute_def)
  with a show ?thesis by (simp add: sentiment_default)
qed

text \<open>With a service whose calls all time out, the sample opportunity is passed over.\<close>

theorem failed_analysis_drops_opportunity_witness:
  "create_analysis_prompt (opportunity_data (sample_opportunity 0)) =
     Inr (AnalysisPrompt (PStr ''ethereum'') (PStr ''polygon'')
            (PTuple [PStr ''WETH'', PStr ''USDT'']) (PNum 150) (PNum (12 / 10)) (PNum 10000)) \<and>
   chat_completion silent_openai
     (AnalysisPrompt (PStr ''ethereum'') (PStr ''polygon'')
        (PTuple [PStr ''WETH'', PStr ''USDT'']) (PNum 150) (PNum (12 / 10)) (PNum 10000)) =
     Inl (Raised ''timeout'') \<and>
   analyze_opportunity silent_openai (opportunity_data (sample_opportunity 0)) = Inr None \<and>
   find_opportunities (AIStrategy silent_openai) [sample_opportunity 0] = Inr [] \<and>
   text_completion silent_openai (SentimentPrompt ''The spread is stable.'') =
     Inl (Raised ''timeout'') \<and>
   analyze_text_sentiment silent_openai ''The spread is stable.'' = Finite (1 / 2)"
proof -
  let ?request = "AnalysisPrompt (PStr ''ethereum'') (PStr ''polygon'')
            (PTuple [PStr ''WETH'', PStr ''USDT'']) (PNum 150) (PNum (12 / 10)) (PNum 10000)"
  have built: "create_analysis_prompt (opportunity_data (sample_opportunity 0)) = Inr ?request"
    by (simp add: prompt_built) (simp add: sample_opportunity_def)
  have failed: "chat_completion silent_openai ?request = Inl (Raised ''timeout'')"
    by (simp add: silent_openai_def)
  have mute: "text_completion silent_openai (SentimentPrompt ''The spread is stable.'') =
      Inl (Raised ''timeout'')"
    by (simp add: silent_openai_def)
  from failed_analysis_drops_opportunity [OF built failed, of "[]" "[]"] built failed mute
  show ?thesis by blast
qed

text \<open>
  Two failures of the service. When the chat call times out the analysis is \<open>None\<close>,
  with no score in it. When the chat call answers and the sentiment call times out,
  the neutral 0.5 is added to the base 0.5 and the analysis recommends the execution
  with the score 1.
\<close>

theorem advisory_failure_counterexample:
  "analyze_opportunity silent_openai (opportunity_data (sample_opportunity 0)) = Inr None \<and>
   text_completion no_sentiment_openai (SentimentPrompt ''The spread is stable.'') =
     Inl (Raised ''timeout'') \<and>
   analyze_opportunity no_sentiment_openai (opportunity_data (sample_opportunity 0)) =
     Inr (Some [(''analysis'', PStr ''The spread is stable.''), (''risk_score'', PNum 1),
                (''recommendation'', PStr ''execute''), (''confidence'', PNum 1),
                (''timestamp'', PStr ''2024-03-14T00:00:00'')])"
  by (simp add: analyze_opportunity_def prompt_built silent_openai_def no_sentiment_openai_def
      calculate_risk_score_def sample_profit sample_capital float_sub_def min_float_def
      max_float_def analyze_text_sentiment_def confidence_threshold_def
      sample_opportunity_def)

subsection \<open>The range of the risk score\<close>

text \<open>
  The score of a dictionary with a finite profit percentage \<open>p\<close> and a finite required
  capital \<open>c\<close>: the sum of the three finite parts and the sentiment, cut at 1.
\<close>

lemma risk_score_eval:
  assumes "getitem d ''profit_percentage'' = Inr (PNum p)"
    and "getitem d ''required_capital'' = Inr (PNum c)"
  shows "calculate_risk_score openai analysis d =
     Inr (min_float
            (float_add (Finite (1 / 2 + min (p / 10) (3 / 10) + max 0 (2 / 10 - c / 100000)))
               (analyze_text_sentiment openai analysis))
            (Finite 1))"
proof -
  have "min_float (Finite (p / 10)) (Finite (3 / 10)) = Finite (min (p / 10) (3 / 10))"
    by (simp add: min_float_def min_def)
  moreover have "max_float (Finite 0) (float_sub (Finite (2 / 10)) (Finite (c / 100000))) =
      Finite (max 0 (2 / 10 - c / 100000))"
    by (simp add: max_float_def float_sub_def max_def)
  ultimately show ?thesis
    using assms by (simp add: calculate_risk_score_def)
qed

lemma sentiment_nan:
  "analyze_text_sentiment openai txt = NaN \<longleftrightarrow>
     text_completion openai (SentimentPrompt txt) = Inr (Numeral NaN)"
proof (cases "text_completion openai (SentimentPrompt txt)")
  case (Inl e)
  then show ?thesis by (simp add: analyze_text_sentiment_def)
next
  case (Inr reply)
  show ?thesis
  proof (cases reply)
    case (Prose p)
    with Inr show ?thesis by (simp add: analyze_text_sentiment_def)
  next
    case (Numeral x)
    with Inr show ?thesis by (cases x) (simp_all add: analyze_text_sentiment_def)
  qed
qed

lemma sentiment_bounds:
  assumes "\<forall>x. text_completion openai (SentimentPrompt txt) = Inr (Numeral x) \<longrightarrow>
      float_le (Finite (- 1)) x"
  shows "float_le (Finite 0) (analyze_text_sentiment openai txt)"
proof (cases "text_completion openai (SentimentPrompt txt)")
  case (Inl e)
  then show ?thesis by (simp add: analyze_text_sentiment_def)
next
  case (Inr reply)
  show ?thesis
  proof (cases reply)
    case (Prose p)
    with Inr show ?thesis by (simp add: analyze_text_sentiment_def)
  next
    case (Numeral x)
    with Inr assms have "float_le (Finite (- 1)) x" by simp
    with Inr Numeral show ?thesis by (cases x) (simp_all add: analyze_text_sentiment_def)
  qed
qed

lemma cut_at_one:
  "min_float (float_add (Finite k) x) (Finite 1) = NaN \<longleftrightarrow> x = NaN"
  "x \<noteq> NaN \<Longrightarrow> float_le (min_float (float_add (Finite k) x) (Finite 1)) (Finite 1)"
  "0 \<le> k \<Longrightarrow> float_le (Finite 0) x \<Longrightarrow>
     float_le (Finite 0) (min_float (float_add (Finite k) x) (Finite 1))"
  by (cases x; simp add: min_float_def)+

text \<open>
  Claim C8, as the code has it. For a dictionary with a numeric profit percentage \<open>p\<close>
  and a numeric required capital, \<open>_calculate_risk_score\<close> returns a score. The score
  is \<open>nan\<close> exactly when the sentiment answer is a text that \<open>float\<close> reads as \<open>nan\<close>;
  for every other answer, and when the sentiment call fails, the score is at most 1,
  since the sum is cut at 1.0. Nothing cuts it at 0: the score is at least 0 when \<open>p\<close>
  is at least -5 and the sentiment answer, if it is a number, is at least -1, as the
  prompt asks.
\<close>

theorem risk_score_range:
  assumes "getitem d ''profit_percentage'' = Inr (PNum p)"
    and "getitem d ''required_capital'' = Inr (PNum c)"
  shows "\<exists>s. calculate_risk_score openai analysis d = Inr s \<and>
           (s = NaN \<longleftrightarrow>
              text_completion openai (SentimentPrompt analysis) = Inr (Numeral NaN)) \<and>
           (text_completion openai (SentimentPrompt analysis) \<noteq> Inr (Numeral NaN) \<longrightarrow>
              float_le s (Finite 1)) \<and>
           (- 5 \<le> p \<and>
            (\<forall>x. text_completion openai (SentimentPrompt analysis) = Inr (Numeral x) \<longrightarrow>
               float_le (Finite (- 1)) x)
              \<longrightarrow> float_le (Finite 0) s)"
proof -
  let ?k = "1 / 2 + min (p / 10) (3 / 10) + max 0 (2 / 10 - c / 100000)"
  let ?x = "analyze_text_sentiment openai analysis"
  let ?s = "min_float (float_add (Finite ?k) ?x) (Finite 1)"
  have eq: "calculate_risk_score openai analysis d = Inr ?s"
    using assms by (rule risk_score_eval)
  have nan: "?s = NaN \<longleftrightarrow>
      text_completion openai (SentimentPrompt analysis) = Inr (Numeral NaN)"
    by (simp only: cut_at_one(1) sentiment_nan)
  have upper: "float_le ?s (Finite 1)"
    if "text_completion openai (SentimentPrompt analysis) \<noteq> Inr (Numeral NaN)"
  proof -
    from that have "?x \<noteq> NaN" by (simp add: sentiment_nan)
    then show ?thesis by (rule cut_at_one(2))
  qed
  have lower: "float_le (Finite 0) ?s"
    if "- 5 \<le> p"
      and "\<forall>x. text_completion openai (SentimentPrompt analysis) = Inr (Numeral x) \<longrightarrow>
        float_le (Finite (- 1)) x"
  proof -
    from that(2) have "float_le (Finite 0) ?x" by (rule sentiment_bounds)
    moreover from that(1) have "- (1 / 2) \<le> min (p / 10) (3 / 10)" by simp
    then have "0 \<le> ?k" by simp
    ultimately show ?thesis by (intro cut_at_one(3))
  qed
  from eq nan upper lower show ?thesis by blast
qed

text \<open>The sample opportunity with a sentiment answer of 0.2.\<close>

theorem risk_score_range_witness:
  "getitem (opportunity_data (sample_opportunity 0)) ''profit_percentage'' =
     Inr (PNum (12 / 10)) \<and>
   getitem (opportunity_data (sample_opportunity 0)) ''required_capital'' =
     Inr (PNum 10000) \<and>
   - 5 \<le> (12 / 10 :: real) \<and>
   text_completion calm_openai (SentimentPrompt ''The spread is stable.'') =
     Inr (Numeral (Finite (1 / 5))) \<and>
   float_le (Finite (- 1)) (Finite (1 / 5)) \<and>
   (\<exists>s. calculate_risk_score calm_openai ''The spread is stable.''
           (opportunity_data (sample_opportunity 0)) = Inr s \<and>
        s \<noteq> NaN \<and> float_le s (Finite 1) \<and> float_le (Finite 0) s)"
proof -
  let ?d = "opportunity_data (sample_opportunity 0)"
  have p: "getitem ?d ''profit_percentage'' = Inr (PNum (12 / 10))"
    by (simp add: sample_profit) (simp add: sample_opportunity_def)
  have c: "getitem ?d ''required_capital'' = Inr (PNum 10000)"
    by (simp add: sample_capital) (simp add: sample_opportunity_def)
  have t: "text_completion calm_openai (SentimentPrompt ''The spread is stable.'') =
      Inr (Numeral (Finite (1 / 5)))"
    by (simp add: calm_openai_def)
  then have range: "\<forall>x. text_completion calm_openai (SentimentPrompt ''The spread is stable.'') =
      Inr (Numeral x) \<longrightarrow> float_le (Finite (- 1)) x"
    by simp
  from t have not_nan: "text_completion calm_openai (SentimentPrompt ''The spread is stable.'') \<noteq>
      Inr (Numeral NaN)"
    by simp
  have low: "- 5 \<le> (12 / 10 :: real)" by simp
  have inside: "float_le (Finite (- 1)) (Finite (1 / 5))" by simp
  from risk_score_range [OF p c, of calm_openai "''The spread is stable.''"] range not_nan low
  have "\<exists>s. calculate_risk_score calm_openai ''The spread is stable.'' ?d = Inr s \<and>
      s \<noteq> NaN \<and> float_le s (Finite 1) \<and> float_le (Finite 0) s"
    by blast
  with p c t low inside show ?thesis by blast
qed

text \<open>
  A sentiment answer of -5 gives the sample opportunity the score -1.28, and a loss of
  60 percent gives it the score -4.9 with the neutral sentiment; neither is at least 0.
  A sentiment answer of \<open>nan\<close> gives the score \<open>nan\<close>, which is not at most 1.
\<close>

theorem risk_score_counterexample:
  "calculate_risk_score harsh_openai ''The spread is stable.''
     (opportunity_data (sample_opportunity 0)) = Inr (Finite (- (32 / 25))) \<and>
   \<not> float_le (Finite 0) (Finite (- (32 / 25))) \<and>
   calculate_risk_score silent_openai ''The spread is stable.''
     (opportunity_data losing_opportunity) = Inr (Finite (- (49 / 10))) \<and>
   \<not> float_le (Finite 0) (Finite (- (49 / 10))) \<and>
   calculate_risk_score nan_openai ''The spread is stable.''
     (opportunity_data (sample_opportunity 0)) = Inr NaN \<and>
   \<not> float_le NaN (Finite 1)"
  by (simp add: calculate_risk_score_def sample_profit sample_capital float_sub_def
      min_float_def max_float_def analyze_text_sentiment_def harsh_openai_def
      silent_openai_def nan_openai_def losing_opportunity_def sample_opportunity_def)

section \<open>Properties of the Execute button\<close>

text \<open>
  Claim C2, as the code has it. \<open>execute_opportunity\<close> compares nothing and keeps no
  fingerprint: every click appends its opportunity to the active trades and shows the
  success message, and the list of opportunities stays as it was. After any sequence of
  clicks the active trades are the earlier ones followed by one entry per click.
\<close>

theorem every_click_adds_a_trade:
  "active_trades (fst (execute_clicks st opps)) = active_trades st @ opps \<and>
   snd (execute_clicks st opps) =
     map (\<lambda>opp. SuccessNotice ''Trade executed successfully!'') opps \<and>
   opportunities (fst (execute_clicks st opps)) = opportunities st"
proof (induction opps arbitrary: st)
  case Nil
  show ?case by simp
next
  case (Cons opp opps)
  let ?st = "st\<lparr>active_trades := active_trades st @ [opp]\<rparr>"
  obtain st'' others where e: "execute_clicks ?st opps = (st'', others)"
    by (cases "execute_clicks ?st opps")
  from Cons.IH [of ?st] e show ?case by (simp add: execute_opportunity_def)
qed

theorem every_click_adds_a_trade_witness:
  "active_trades (fst (execute_clicks empty_session [sample_opportunity 0])) =
     [sample_opportunity 0] \<and>
   snd (execute_clicks empty_session [sample_opportunity 0]) =
     [SuccessNotice ''Trade executed successfully!'']"
  using every_click_adds_a_trade [of empty_session "[sample_opportunity 0]"]
  by (simp add: empty_session_def)

text \<open>
  Two clicks on the same opportunity, none of them completed: two active trades and
  two success messages, no rejection.
\<close>

theorem duplicate_execution_counterexample:
  "active_trades (fst (execute_clicks empty_session
      [sample_opportunity 0, sample_opportunity 0])) =
     [sample_opportunity 0, sample_opportunity 0] \<and>
   snd (execute_clicks empty_session [sample_opportunity 0, sample_opportunity 0]) =
     [SuccessNotice ''Trade executed successfully!'',
      SuccessNotice ''Trade executed successfully!'']"
  by (simp add: execute_opportunity_def empty_session_def)

end
